theory Spec2Isabelle
  imports Complex_Main
begin

section \<open>The outside world: clock and GPIO\<close>

text \<open>
  The Python modules read the wall clock with \<^verbatim>\<open>time.time()\<close> and talk to the relay
  board through \<^verbatim>\<open>RPi.GPIO\<close>. Both are effects, so the model threads a \<open>world\<close>
  through every function that performs one. The world fixes, in advance, what each
  successive call will observe: \<open>clock w n\<close> is the value of the \<open>n\<close>-th call of
  \<^verbatim>\<open>time.time()\<close>, \<open>level_sensor w n\<close> the outcome of the \<open>n\<close>-th
  \<^verbatim>\<open>GPIO.input\<close>, and \<open>output_ok w n\<close> tells whether the \<open>n\<close>-th
  \<^verbatim>\<open>GPIO.output\<close> succeeds or raises. Nothing is assumed about these functions: two
  consecutive clock reads may or may not return the same instant. Python floats are
  modelled as reals, so rounding is outside the model.
\<close>

datatype level = LOW | HIGH

datatype gpio_read = Reads level | Read_raises

record world =
  clock :: "nat \<Rightarrow> real"
  ticks :: nat
  level_sensor :: "nat \<Rightarrow> gpio_read"
  input_calls :: nat
  output_ok :: "nat \<Rightarrow> bool"
  output_calls :: nat
  pins :: "nat \<Rightarrow> level option"

definition time_time :: "world \<Rightarrow> real \<times> world" where
  "time_time w = (clock w (ticks w), w\<lparr>ticks := Suc (ticks w)\<rparr>)"

text \<open>\<^verbatim>\<open>GPIO.input(pin)\<close>: the only pin ever read is the water level sensor.\<close>

definition GPIO_input :: "world \<Rightarrow> gpio_read \<times> world" where
  "GPIO_input w = (level_sensor w (input_calls w), w\<lparr>input_calls := Suc (input_calls w)\<rparr>)"

text \<open>\<^verbatim>\<open>GPIO.output(pin, value)\<close>: \<open>True\<close> when the write went through (the pin now
  carries the value), \<open>False\<close> when it raised (the pin is left as it was).\<close>

definition GPIO_output :: "nat \<Rightarrow> level \<Rightarrow> world \<Rightarrow> bool \<times> world" where
  "GPIO_output pin v w =
     (if output_ok w (output_calls w)
      then (True, w\<lparr>output_calls := Suc (output_calls w), pins := (pins w)(pin \<mapsto> v)\<rparr>)
      else (False, w\<lparr>output_calls := Suc (output_calls w)\<rparr>))"

section \<open>settings.py: the configuration dictionary\<close>

text \<open>
  The configuration is a dictionary of dictionaries; the code reads every entry with
  \<^verbatim>\<open>.get(key, default)\<close>. Each sub-dictionary is a record whose fields are optional
  (\<open>None\<close>: the key is absent), read with \<open>dict_get\<close>. Only the keys that the
  actuator controller and the control engine read are kept.
\<close>

definition dict_get :: "'a option \<Rightarrow> 'a \<Rightarrow> 'a" where
  "dict_get entry dflt = (case entry of Some v \<Rightarrow> v | None \<Rightarrow> dflt)"

record targets_cfg =
  cfg_temp_min :: "real option"
  cfg_temp_target :: "real option"
  cfg_temp_max :: "real option"
  cfg_humidity_min :: "real option"
  cfg_humidity_target :: "real option"
  cfg_humidity_max :: "real option"
  cfg_temp_rate_warning :: "real option"
  cfg_humidity_rate_warning :: "real option"

record gpio_cfg =
  cfg_water_pump :: "nat option"
  cfg_chiller :: "nat option"
  cfg_dehumidifier :: "nat option"
  cfg_water_level_sensor :: "nat option"

record actuators_cfg =
  cfg_min_cycle_time :: "real option"
  cfg_max_pump_runtime :: "real option"
  cfg_max_chiller_runtime :: "real option"
  cfg_max_dehumidifier_runtime :: "real option"
  cfg_spray_duration :: "real option"
  cfg_spray_cooldown :: "real option"

record control_cfg =
  cfg_temp_hysteresis :: "real option"
  cfg_humidity_hysteresis :: "real option"
  cfg_prediction_window :: "real option"
  cfg_history_samples :: "nat option"
  cfg_priority_temperature :: "real option"
  cfg_priority_humidity :: "real option"
  cfg_priority_energy :: "real option"

record safety_cfg =
  cfg_enable_water_level_check :: "bool option"
  cfg_emergency_shutdown_temp :: "real option"

record config =
  targets_dict :: targets_cfg
  gpio_dict :: gpio_cfg
  actuators_dict :: actuators_cfg
  control_dict :: control_cfg
  safety_dict :: safety_cfg

text \<open>\<^verbatim>\<open>config or {}\<close> with no configuration given: every key is absent.\<close>

definition empty_config :: config where
  "empty_config =
     \<lparr> targets_dict = \<lparr> cfg_temp_min = None, cfg_temp_target = None, cfg_temp_max = None,
          cfg_humidity_min = None, cfg_humidity_target = None, cfg_humidity_max = None,
          cfg_temp_rate_warning = None, cfg_humidity_rate_warning = None \<rparr>,
       gpio_dict = \<lparr> cfg_water_pump = None, cfg_chiller = None, cfg_dehumidifier = None,
          cfg_water_level_sensor = None \<rparr>,
       actuators_dict = \<lparr> cfg_min_cycle_time = None, cfg_max_pump_runtime = None,
          cfg_max_chiller_runtime = None, cfg_max_dehumidifier_runtime = None,
          cfg_spray_duration = None, cfg_spray_cooldown = None \<rparr>,
       control_dict = \<lparr> cfg_temp_hysteresis = None, cfg_humidity_hysteresis = None,
          cfg_prediction_window = None, cfg_history_samples = None,
          cfg_priority_temperature = None, cfg_priority_humidity = None,
          cfg_priority_energy = None \<rparr>,
       safety_dict = \<lparr> cfg_enable_water_level_check = None, cfg_emergency_shutdown_temp = None \<rparr> \<rparr>"

text \<open>\<^verbatim>\<open>get_config_dict()\<close>: the mango storage settings of \<^verbatim>\<open>settings.py\<close>.\<close>

definition get_config_dict :: config where
  "get_config_dict =
     \<lparr> targets_dict = \<lparr> cfg_temp_min = Some 10.0, cfg_temp_target = Some 11.0,
          cfg_temp_max = Some 12.2, cfg_humidity_min = Some 85.0,
          cfg_humidity_target = Some 87.5, cfg_humidity_max = Some 90.0,
          cfg_temp_rate_warning = Some 0.5, cfg_humidity_rate_warning = Some 2.0 \<rparr>,
       gpio_dict = \<lparr> cfg_water_pump = Some 17, cfg_chiller = Some 27, cfg_dehumidifier = Some 22,
          cfg_water_level_sensor = Some 23 \<rparr>,
       actuators_dict = \<lparr> cfg_min_cycle_time = Some 10, cfg_max_pump_runtime = Some 600,
          cfg_max_chiller_runtime = Some 1800, cfg_max_dehumidifier_runtime = Some 1200,
          cfg_spray_duration = Some 5, cfg_spray_cooldown = Some 30 \<rparr>,
       control_dict = \<lparr> cfg_temp_hysteresis = Some 0.5, cfg_humidity_hysteresis = Some 2.0,
          cfg_prediction_window = Some 5, cfg_history_samples = Some 20,
          cfg_priority_temperature = Some 10, cfg_priority_humidity = Some 7,
          cfg_priority_energy = Some 3 \<rparr>,
       safety_dict = \<lparr> cfg_enable_water_level_check = Some True,
          cfg_emergency_shutdown_temp = Some 15.0 \<rparr> \<rparr>"

section \<open>actuators.py: a single actuator\<close>

datatype ActuatorState = OFF | ON | FAULT

record actuator =
  name :: string
  gpio_pin :: nat
  min_cycle_time :: real
  max_runtime :: real
  active_low :: bool
  state :: ActuatorState
  last_state_change :: real
  runtime_start :: "real option"
  total_runtime :: real
  cycle_count :: nat

text \<open>\<^verbatim>\<open>Actuator.__init__\<close>.\<close>

definition new_actuator :: "string \<Rightarrow> nat \<Rightarrow> real \<Rightarrow> real \<Rightarrow> bool \<Rightarrow> actuator" where
  "new_actuator nm pin min_cycle max_run act_low =
     \<lparr> name = nm, gpio_pin = pin, min_cycle_time = min_cycle, max_runtime = max_run,
       active_low = act_low, state = OFF, last_state_change = 0, runtime_start = None,
       total_runtime = 0, cycle_count = 0 \<rparr>"

text \<open>Python truth value of \<^verbatim>\<open>self.runtime_start\<close>: \<^verbatim>\<open>None\<close> and \<^verbatim>\<open>0.0\<close> are
  both false.\<close>

definition truthy :: "real option \<Rightarrow> bool" where
  "truthy x = (case x of None \<Rightarrow> False | Some t \<Rightarrow> t \<noteq> 0)"

definition can_change_state :: "actuator \<Rightarrow> world \<Rightarrow> bool \<times> world" where
  "can_change_state a w =
     (let (now, w1) = time_time w;
          elapsed = now - last_state_change a
      in (elapsed \<ge> min_cycle_time a, w1))"

definition is_runtime_exceeded :: "actuator \<Rightarrow> world \<Rightarrow> bool \<times> world" where
  "is_runtime_exceeded a w =
     (case runtime_start a of
        Some started \<Rightarrow>
          if state a = ON \<and> truthy (Some started)
          then (let (now, w1) = time_time w;
                    runtime = now - started
                in (runtime \<ge> max_runtime a, w1))
          else (False, w)
      | None \<Rightarrow> (False, w))"

definition turn_on :: "actuator \<Rightarrow> world \<Rightarrow> bool \<times> actuator \<times> world" where
  "turn_on a w =
     (if state a = ON then (True, a, w)
      else
        let (can, w1) = can_change_state a w in
        if \<not> can then (False, a, w1)
        else
          let a1 = a\<lparr>state := ON\<rparr>;
              (t1, w2) = time_time w1;
              a2 = a1\<lparr>last_state_change := t1\<rparr>;
              (t2, w3) = time_time w2;
              a3 = a2\<lparr>runtime_start := Some t2\<rparr>;
              a4 = a3\<lparr>cycle_count := cycle_count a3 + 1\<rparr>
          in (True, a4, w3))"

definition turn_off :: "actuator \<Rightarrow> world \<Rightarrow> bool \<times> actuator \<times> world" where
  "turn_off a w =
     (if state a = OFF then (True, a, w)
      else
        let (a1, w1) =
              (case runtime_start a of
                 Some started \<Rightarrow>
                   if state a = ON \<and> truthy (Some started)
                   then (let (now, w') = time_time w;
                             runtime = now - started
                         in (a\<lparr>total_runtime := total_runtime a + runtime\<rparr>, w'))
                   else (a, w)
               | None \<Rightarrow> (a, w));
            a2 = a1\<lparr>state := OFF\<rparr>;
            (t, w2) = time_time w1;
            a3 = a2\<lparr>last_state_change := t\<rparr>;
            a4 = a3\<lparr>runtime_start := None\<rparr>
        in (True, a4, w2))"

definition emergency_stop :: "actuator \<Rightarrow> actuator" where
  "emergency_stop a = a\<lparr>state := OFF, runtime_start := None\<rparr>"

section \<open>actuators.py: the controller\<close>

text \<open>The dictionary \<^verbatim>\<open>self.actuators\<close> always has exactly the keys \<^verbatim>\<open>'pump'\<close>,
  \<^verbatim>\<open>'chiller'\<close> and \<^verbatim>\<open>'dehumidifier'\<close>, inserted in this order; it is a total
  function on the three keys, iterated in insertion order.\<close>

datatype actuator_key = Pump | Chiller | Dehumidifier

definition actuator_keys :: "actuator_key list" where
  "actuator_keys = [Pump, Chiller, Dehumidifier]"

record controller =
  safety_config :: safety_cfg
  actuators :: "actuator_key \<Rightarrow> actuator"
  gpio_initialized :: bool
  water_level_ok :: bool
  emergency_mode :: bool

text \<open>\<^verbatim>\<open>ActuatorController.__init__\<close> with \<^verbatim>\<open>_setup_actuators\<close>; \<open>gpio\<close> tells
  whether \<^verbatim>\<open>RPi.GPIO\<close> could be imported and initialised (otherwise the controller
  runs in simulation mode).\<close>

definition new_controller :: "config \<Rightarrow> bool \<Rightarrow> controller" where
  "new_controller cfg gpio =
     (let water_pump_pin = dict_get (cfg_water_pump (gpio_dict cfg)) 17;
          chiller_pin = dict_get (cfg_chiller (gpio_dict cfg)) 27;
          dehumidifier_pin = dict_get (cfg_dehumidifier (gpio_dict cfg)) 22;
          min_cycle = dict_get (cfg_min_cycle_time (actuators_dict cfg)) 10;
          max_pump_runtime = dict_get (cfg_max_pump_runtime (actuators_dict cfg)) 600;
          max_chiller_runtime = dict_get (cfg_max_chiller_runtime (actuators_dict cfg)) 1800;
          max_dehumidifier_runtime = dict_get (cfg_max_dehumidifier_runtime (actuators_dict cfg)) 1200
      in \<lparr> safety_config = safety_dict cfg,
           actuators = (\<lambda>k. case k of
              Pump \<Rightarrow> new_actuator ''Water Pump'' water_pump_pin min_cycle max_pump_runtime True
            | Chiller \<Rightarrow> new_actuator ''Chiller'' chiller_pin min_cycle max_chiller_runtime True
            | Dehumidifier \<Rightarrow> new_actuator ''Dehumidifier'' dehumidifier_pin min_cycle max_dehumidifier_runtime True),
           gpio_initialized = gpio, water_level_ok = True, emergency_mode = False \<rparr>)"

text \<open>\<^verbatim>\<open>_set_gpio_state\<close>: in simulation mode nothing is written; otherwise a failed
  write marks the actuator \<open>FAULT\<close>.\<close>

definition set_gpio_state :: "controller \<Rightarrow> actuator_key \<Rightarrow> bool \<Rightarrow> world \<Rightarrow> controller \<times> world" where
  "set_gpio_state c k st w =
     (if \<not> gpio_initialized c then (c, w)
      else
        let a = actuators c k;
            gpio_value = (if (st \<and> active_low a) \<or> (\<not> st \<and> \<not> active_low a) then LOW else HIGH);
            (written, w1) = GPIO_output (gpio_pin a) gpio_value w
        in if written then (c, w1)
           else (c\<lparr>actuators := (actuators c)(k := a\<lparr>state := FAULT\<rparr>)\<rparr>, w1))"

definition check_water_level :: "controller \<Rightarrow> world \<Rightarrow> bool \<times> controller \<times> world" where
  "check_water_level c w =
     (if \<not> gpio_initialized c then (True, c, w)
      else if \<not> dict_get (cfg_enable_water_level_check (safety_config c)) True then (True, c, w)
      else
        let (r, w1) = GPIO_input w in
        case r of
          Reads l \<Rightarrow> (let level_ok = (l = HIGH) in (level_ok, c\<lparr>water_level_ok := level_ok\<rparr>, w1))
        | Read_raises \<Rightarrow> (False, c, w1))"

text \<open>The body shared, word for word, by \<^verbatim>\<open>set_pump\<close> (after its water gate),
  \<^verbatim>\<open>set_chiller\<close> and \<^verbatim>\<open>set_dehumidifier\<close>: command the actuator and mirror the
  command onto the pin only when the actuator accepted it.\<close>

definition command :: "controller \<Rightarrow> actuator_key \<Rightarrow> bool \<Rightarrow> world \<Rightarrow> bool \<times> controller \<times> world" where
  "command c k st w =
     (let (success, a', w1) = (if st then turn_on (actuators c k) w else turn_off (actuators c k) w);
          c1 = c\<lparr>actuators := (actuators c)(k := a')\<rparr>
      in if success
         then (let (c2, w2) = set_gpio_state c1 k st w1 in (success, c2, w2))
         else (success, c1, w1))"

definition set_pump :: "controller \<Rightarrow> bool \<Rightarrow> world \<Rightarrow> bool \<times> controller \<times> world" where
  "set_pump c st w =
     (if st
      then (let (level_ok, c1, w1) = check_water_level c w in
            if \<not> level_ok then (False, c1, w1) else command c1 Pump st w1)
      else command c Pump st w)"

definition set_chiller :: "controller \<Rightarrow> bool \<Rightarrow> world \<Rightarrow> bool \<times> controller \<times> world" where
  "set_chiller c st w = command c Chiller st w"

definition set_dehumidifier :: "controller \<Rightarrow> bool \<Rightarrow> world \<Rightarrow> bool \<times> controller \<times> world" where
  "set_dehumidifier c st w = command c Dehumidifier st w"

text \<open>One round of the loop of \<^verbatim>\<open>check_safety\<close>; the state of the loop is
  \<open>(all_ok, controller, world)\<close>.\<close>

definition sweep_actuator ::
  "actuator_key \<Rightarrow> bool \<times> controller \<times> world \<Rightarrow> bool \<times> controller \<times> world" where
  "sweep_actuator k s =
     (let (all_ok, c, w) = s;
          (exceeded, w1) = is_runtime_exceeded (actuators c k) w
      in if exceeded
         then (let (r, c2, w2) =
                     (case k of
                        Pump \<Rightarrow> set_pump c False w1
                      | Chiller \<Rightarrow> set_chiller c False w1
                      | Dehumidifier \<Rightarrow> set_dehumidifier c False w1)
               in (False, c2, w2))
         else (all_ok, c, w1))"

definition check_safety :: "controller \<Rightarrow> world \<Rightarrow> bool \<times> controller \<times> world" where
  "check_safety c w =
     (let (all_ok, c1, w1) = fold sweep_actuator actuator_keys (True, c, w);
          (level_ok, c2, w2) = check_water_level c1 w1
      in if \<not> level_ok
         then (if state (actuators c2 Pump) = ON
               then (let (r, c3, w3) = set_pump c2 False w2 in (False, c3, w3))
               else (False, c2, w2))
         else (all_ok, c2, w2))"

definition emergency_shutdown :: "controller \<Rightarrow> world \<Rightarrow> controller \<times> world" where
  "emergency_shutdown c w =
     fold (\<lambda>k (c', w'). set_gpio_state (c'\<lparr>actuators := (actuators c')(k := emergency_stop (actuators c' k))\<rparr>) k False w')
       actuator_keys (c\<lparr>emergency_mode := True\<rparr>, w)"

section \<open>control_engine.py: the hybrid control engine\<close>

datatype CoolingMode = IDLE | EVAPORATIVE | CHILLER | DEHUMIDIFY | COOL_AND_DEHUMIDIFY | EMERGENCY

text \<open>The members of the enumeration, in the order in which Python iterates over it.\<close>

definition cooling_modes :: "CoolingMode list" where
  "cooling_modes = [IDLE, EVAPORATIVE, CHILLER, DEHUMIDIFY, COOL_AND_DEHUMIDIFY, EMERGENCY]"

text \<open>The assessment strings, before formatting: the two predictive ones embed the
  predicted value.\<close>

datatype assessment =
    Critically_high | High | Above_target | Critically_low | Below_target
  | Rising_rapidly real | Falling_rapidly real | Optimal

text \<open>The reason strings, before formatting: each constructor is one f-string of
  \<^verbatim>\<open>make_decision\<close> with the values it embeds.\<close>

datatype reason =
    Emergency_exceeds real real
  | Aggressive_cooling assessment
  | Chiller_plus_dehumidifier assessment assessment
  | Coordinated assessment assessment
  | Dehumidifying assessment
  | Evaporative_cooling assessment
  | Moderate_cooling assessment assessment
  | Predictive_rising real
  | Conditions_optimal assessment assessment

datatype py_error = IndexError

record SensorReading =
  temperature :: real
  humidity :: real
  read_at :: real

record ControlDecision =
  mode :: CoolingMode
  pump :: bool
  chiller :: bool
  dehumidifier :: bool
  reason :: reason
  priority :: int
  timestamp :: real

text \<open>\<^verbatim>\<open>ControlDecision.__init__\<close> stamps the decision with the clock.\<close>

definition new_decision ::
  "CoolingMode \<Rightarrow> bool \<Rightarrow> bool \<Rightarrow> bool \<Rightarrow> reason \<Rightarrow> int \<Rightarrow> world \<Rightarrow> ControlDecision \<times> world" where
  "new_decision m p c d r pr w =
     (let (now, w1) = time_time w
      in (\<lparr> mode = m, pump = p, chiller = c, dehumidifier = d, reason = r, priority = pr,
            timestamp = now \<rparr>, w1))"

text \<open>\<^verbatim>\<open>SensorReading(temperature, humidity)\<close>: no timestamp is passed, so
  \<^verbatim>\<open>timestamp or time.time()\<close> reads the clock. The field \<^verbatim>\<open>timestamp\<close> of a
  reading is called \<open>read_at\<close> here, the name \<open>timestamp\<close> being the decision's.\<close>

definition new_reading :: "real \<Rightarrow> real \<Rightarrow> world \<Rightarrow> SensorReading \<times> world" where
  "new_reading t h w =
     (let (now, w1) = time_time w
      in (\<lparr> temperature = t, humidity = h, read_at = now \<rparr>, w1))"

record engine =
  control_params :: control_cfg
  actuator_params :: actuators_cfg
  safety_params :: safety_cfg
  temp_target :: real
  temp_min :: real
  temp_max :: real
  humidity_target :: real
  humidity_min :: real
  humidity_max :: real
  temp_hysteresis :: real
  humidity_hysteresis :: real
  temp_rate_warning :: real
  humidity_rate_warning :: real
  max_history :: nat
  temp_history :: "real list"
  humidity_history :: "real list"
  reading_history :: "SensorReading list"
  current_mode :: CoolingMode
  last_decision :: "ControlDecision option"
  last_mode_change :: real
  spray_last_activated :: real
  decisions_made :: nat
  mode_durations :: "CoolingMode \<Rightarrow> real"

text \<open>\<^verbatim>\<open>HybridControlEngine.__init__\<close>.\<close>

definition new_engine :: "config \<Rightarrow> world \<Rightarrow> engine \<times> world" where
  "new_engine cfg w =
     (let tg = targets_dict cfg;
          cp = control_dict cfg;
          (now, w1) = time_time w
      in (\<lparr> control_params = cp,
            actuator_params = actuators_dict cfg,
            safety_params = safety_dict cfg,
            temp_target = dict_get (cfg_temp_target tg) 5.0,
            temp_min = dict_get (cfg_temp_min tg) 2.0,
            temp_max = dict_get (cfg_temp_max tg) 8.0,
            humidity_target = dict_get (cfg_humidity_target tg) 90.0,
            humidity_min = dict_get (cfg_humidity_min tg) 85.0,
            humidity_max = dict_get (cfg_humidity_max tg) 95.0,
            temp_hysteresis = dict_get (cfg_temp_hysteresis cp) 0.5,
            humidity_hysteresis = dict_get (cfg_humidity_hysteresis cp) 2.0,
            temp_rate_warning = dict_get (cfg_temp_rate_warning tg) 0.5,
            humidity_rate_warning = dict_get (cfg_humidity_rate_warning tg) 2.0,
            max_history = dict_get (cfg_history_samples cp) 20,
            temp_history = [],
            humidity_history = [],
            reading_history = [],
            current_mode = IDLE,
            last_decision = None,
            last_mode_change = now,
            spray_last_activated = 0,
            decisions_made = 0,
            mode_durations = (\<lambda>m. 0) \<rparr>, w1))"

text \<open>\<^verbatim>\<open>deque(maxlen=n).append(x)\<close>: the oldest entries are dropped beyond \<open>n\<close>.\<close>

definition deque_append :: "nat \<Rightarrow> 'a list \<Rightarrow> 'a \<Rightarrow> 'a list" where
  "deque_append n xs x = (let ys = xs @ [x] in drop (length ys - n) ys)"

definition add_reading :: "engine \<Rightarrow> real \<Rightarrow> real \<Rightarrow> world \<Rightarrow> engine \<times> world" where
  "add_reading e t h w =
     (let (reading, w1) = new_reading t h w
      in (e\<lparr> reading_history := deque_append (max_history e) (reading_history e) reading,
             temp_history := deque_append (max_history e) (temp_history e) t,
             humidity_history := deque_append (max_history e) (humidity_history e) h \<rparr>, w1))"

text \<open>The loop of \<^verbatim>\<open>calculate_rate_of_change\<close> over
  \<^verbatim>\<open>enumerate(reversed(self.reading_history))\<close>: \<open>i\<close> is the running index,
  \<open>recent\<close> the list built so far. \<^verbatim>\<open>list(values)[-(i+1)]\<close> raises when \<open>values\<close>
  has no more than \<open>i\<close> entries; the first reading older than the window ends the
  loop.\<close>

fun recent_readings_loop ::
  "real \<Rightarrow> real \<Rightarrow> real list \<Rightarrow> nat \<Rightarrow> SensorReading list \<Rightarrow> (real \<times> real) list
     \<Rightarrow> py_error + (real \<times> real) list" where
  "recent_readings_loop current_time time_window vals i [] recent = Inr recent"
| "recent_readings_loop current_time time_window vals i (reading # rest) recent =
     (let age = current_time - read_at reading in
      if age \<le> time_window
      then (if i < length vals
            then recent_readings_loop current_time time_window vals (Suc i) rest
                   (recent @ [(read_at reading, vals ! (length vals - Suc i))])
            else Inl IndexError)
      else Inr recent)"

text \<open>\<^verbatim>\<open>max(times)\<close> and \<^verbatim>\<open>min(times)\<close> of a list that is not empty.\<close>

fun max_list :: "real list \<Rightarrow> real" where
  "max_list [] = 0"
| "max_list (x # xs) = fold max xs x"

fun min_list :: "real list \<Rightarrow> real" where
  "min_list [] = 0"
| "min_list (x # xs) = fold min xs x"

definition calculate_rate_of_change ::
  "engine \<Rightarrow> real list \<Rightarrow> real \<Rightarrow> world \<Rightarrow> (py_error + real option) \<times> world" where
  "calculate_rate_of_change e vals time_window w =
     (if length vals < 2 then (Inr None, w)
      else
        let (current_time, w1) = time_time w in
        case recent_readings_loop current_time time_window vals 0 (rev (reading_history e)) [] of
          Inl err \<Rightarrow> (Inl err, w1)
        | Inr recent_readings \<Rightarrow>
            if length recent_readings < 2 then (Inr None, w1)
            else
              let times = map fst recent_readings;
                  values = map snd recent_readings;
                  time_range = max_list times - min_list times
              in if time_range < 1.0 then (Inr None, w1)
                 else
                   let value_change = last values - hd values;
                       rate_per_second = value_change / time_range;
                       rate_per_minute = rate_per_second * 60.0
                   in (Inr (Some rate_per_minute), w1))"

definition predict_future_value :: "real \<Rightarrow> real option \<Rightarrow> real \<Rightarrow> real" where
  "predict_future_value current rate minutes_ahead =
     (case rate of None \<Rightarrow> current | Some r \<Rightarrow> current + (r * minutes_ahead))"

definition assess_temperature :: "engine \<Rightarrow> real \<Rightarrow> real option \<Rightarrow> assessment \<times> int" where
  "assess_temperature e t temp_rate =
     (if t > temp_max e + 2 then (Critically_high, 10)
      else if t > temp_max e then (High, 8)
      else if t > temp_target e + temp_hysteresis e then (Above_target, 6)
      else if t < temp_min e then (Critically_low, 9)
      else if t < temp_target e - temp_hysteresis e then (Below_target, 3)
      else
        case temp_rate of
          None \<Rightarrow> (Optimal, 0)
        | Some r \<Rightarrow>
            if \<bar>r\<bar> > temp_rate_warning e
            then (let prediction_window = dict_get (cfg_prediction_window (control_params e)) 5;
                      future_temp = predict_future_value t (Some r) prediction_window
                  in if future_temp > temp_max e then (Rising_rapidly future_temp, 7)
                     else if future_temp < temp_min e then (Falling_rapidly future_temp, 4)
                     else (Optimal, 0))
            else (Optimal, 0))"

definition assess_humidity :: "engine \<Rightarrow> real \<Rightarrow> real option \<Rightarrow> assessment \<times> int" where
  "assess_humidity e h humidity_rate =
     (if h > humidity_max e + 5 then (Critically_high, 9)
      else if h > humidity_max e then (High, 7)
      else if h > humidity_target e + humidity_hysteresis e then (Above_target, 5)
      else if h < humidity_min e then (Critically_low, 8)
      else if h < humidity_target e - humidity_hysteresis e then (Below_target, 4)
      else
        case humidity_rate of
          None \<Rightarrow> (Optimal, 0)
        | Some r \<Rightarrow>
            if \<bar>r\<bar> > humidity_rate_warning e
            then (let prediction_window = dict_get (cfg_prediction_window (control_params e)) 5;
                      future_humidity = predict_future_value h (Some r) prediction_window
                  in if future_humidity > humidity_max e then (Rising_rapidly future_humidity, 6)
                     else if future_humidity < humidity_min e then (Falling_rapidly future_humidity, 5)
                     else (Optimal, 0))
            else (Optimal, 0))"

definition can_spray_now :: "engine \<Rightarrow> world \<Rightarrow> bool \<times> world" where
  "can_spray_now e w =
     (let spray_cooldown = dict_get (cfg_spray_cooldown (actuator_params e)) 30;
          (now, w1) = time_time w;
          elapsed = now - spray_last_activated e
      in (elapsed \<ge> spray_cooldown, w1))"

text \<open>The rule cascade of \<^verbatim>\<open>make_decision\<close>, from the two assessments to the
  returned decision. The weighted scores \<^verbatim>\<open>temp_score\<close> and \<^verbatim>\<open>humidity_score\<close>
  and the three configured priorities are computed by the source but never used, and are
  left out. \<^verbatim>\<open>can_spray_now\<close> reads the clock, and only when the first half of the
  condition of case 3 holds.\<close>

definition decide ::
  "engine \<Rightarrow> real \<Rightarrow> real \<Rightarrow> real option \<Rightarrow> real option \<Rightarrow> world \<Rightarrow> ControlDecision \<times> world" where
  "decide e t h temp_rate humidity_rate w =
     (let (temp_assessment, temp_urgency) = assess_temperature e t temp_rate;
          (humidity_assessment, humidity_urgency) = assess_humidity e h humidity_rate;
          emergency_temp = dict_get (cfg_emergency_shutdown_temp (safety_params e)) 15.0
      in
      if t > emergency_temp
      then new_decision EMERGENCY True True False (Emergency_exceeds t emergency_temp) 10 w
      else if temp_urgency \<ge> 8
      then (if h < humidity_max e
            then new_decision CHILLER True True False (Aggressive_cooling temp_assessment)
                   temp_urgency w
            else new_decision COOL_AND_DEHUMIDIFY False True True
                   (Chiller_plus_dehumidifier temp_assessment humidity_assessment)
                   (max temp_urgency humidity_urgency) w)
      else if humidity_urgency \<ge> 7
      then (if temp_urgency > 3
            then new_decision COOL_AND_DEHUMIDIFY False True True
                   (Coordinated temp_assessment humidity_assessment)
                   (max temp_urgency humidity_urgency) w
            else new_decision DEHUMIDIFY False False True (Dehumidifying humidity_assessment)
                   humidity_urgency w)
      else
        let (spray, w1) =
              (if temp_urgency \<ge> 4 \<and> h < humidity_max e - 5 then can_spray_now e w
               else (False, w))
        in
        if spray
        then new_decision EVAPORATIVE True False False (Evaporative_cooling temp_assessment)
               temp_urgency w1
        else if temp_urgency \<ge> 3 \<and> humidity_urgency \<ge> 3
        then new_decision CHILLER True True False
               (Moderate_cooling temp_assessment humidity_assessment)
               (max temp_urgency humidity_urgency) w1
        else
          let idle = new_decision IDLE False False False
                       (Conditions_optimal temp_assessment humidity_assessment) 0 w1
          in case temp_rate of
               None \<Rightarrow> idle
             | Some r \<Rightarrow>
                 if r > temp_rate_warning e \<and> h < humidity_max e - 3
                 then new_decision EVAPORATIVE True False False (Predictive_rising r) 5 w1
                 else idle)"

text \<open>\<^verbatim>\<open>make_decision\<close>: the reading is stored, the two rates are computed with the
  default window of 60 seconds, and the cascade decides. An \<^verbatim>\<open>IndexError\<close> of the rate
  computation propagates; the reading has been stored by then.\<close>

definition make_decision ::
  "engine \<Rightarrow> real \<Rightarrow> real \<Rightarrow> world \<Rightarrow> (py_error + ControlDecision) \<times> engine \<times> world" where
  "make_decision e t h w =
     (let (e1, w1) = add_reading e t h w;
          (tr, w2) = calculate_rate_of_change e1 (temp_history e1) 60.0 w1
      in case tr of
           Inl err \<Rightarrow> (Inl err, e1, w2)
         | Inr temp_rate \<Rightarrow>
             (let (hr, w3) = calculate_rate_of_change e1 (humidity_history e1) 60.0 w2
              in (case hr of
                    Inl err' \<Rightarrow> (Inl err', e1, w3)
                  | Inr humidity_rate \<Rightarrow>
                      (let (d, w4) = decide e1 t h temp_rate humidity_rate w3
                       in (Inr d, e1, w4)))))"

definition execute_decision :: "engine \<Rightarrow> ControlDecision \<Rightarrow> world \<Rightarrow> engine \<times> world" where
  "execute_decision e d w =
     (let (e1, w1) =
            (if current_mode e \<noteq> mode d
             then (let (t1, w') = time_time w;
                       duration = t1 - last_mode_change e;
                       e' = e\<lparr>mode_durations := (mode_durations e)
                               (current_mode e := mode_durations e (current_mode e) + duration)\<rparr>;
                       (t2, w'') = time_time w'
                   in (e'\<lparr>last_mode_change := t2\<rparr>, w''))
             else (e, w));
          e2 = e1\<lparr>current_mode := mode d, last_decision := Some d,
                 decisions_made := decisions_made e1 + 1\<rparr>
      in if pump d
         then (let (t, w2) = time_time w1 in (e2\<lparr>spray_last_activated := t\<rparr>, w2))
         else (e2, w1))"

text \<open>The local \<^verbatim>\<open>total_time\<close> of \<^verbatim>\<open>get_statistics\<close>, for the clock value \<open>now\<close>
  that the function reads: the per-mode counters summed over all modes, plus the open
  interval of the current mode.\<close>

definition total_time :: "engine \<Rightarrow> real \<Rightarrow> real" where
  "total_time e now = sum_list (map (mode_durations e) cooling_modes) + (now - last_mode_change e)"

record mode_statistic =
  duration :: real
  percentage :: real

record statistics =
  stat_current_mode :: CoolingMode
  stat_decisions_made :: nat
  readings_in_history :: nat
  mode_statistics :: "CoolingMode \<rightharpoonup> mode_statistic"
  target_temperature :: real
  target_humidity :: real

definition get_statistics :: "engine \<Rightarrow> world \<Rightarrow> statistics \<times> world" where
  "get_statistics e w =
     (let (now, w1) = time_time w;
          total = total_time e now;
          (mode_percentages, w2) =
             fold (\<lambda>m (acc, w').
                     let (dur, w'') =
                           (if m = current_mode e
                            then (let (t, w3) = time_time w'
                                  in (mode_durations e m + (t - last_mode_change e), w3))
                            else (mode_durations e m, w'));
                         pct = (if total > 0 then dur / total * 100 else 0)
                     in (acc(m \<mapsto> \<lparr> duration = dur, percentage = pct \<rparr>), w''))
                  cooling_modes (Map.empty, w1)
      in (\<lparr> stat_current_mode = current_mode e,
            stat_decisions_made = decisions_made e,
            readings_in_history = length (reading_history e),
            mode_statistics = mode_percentages,
            target_temperature = temp_target e,
            target_humidity = humidity_target e \<rparr>, w2))"

section \<open>The engine's series and targets\<close>

text \<open>The three deques of the engine are created with the same \<^verbatim>\<open>maxlen\<close> and
  appended to together, so in every state that the program reaches the two series have
  one entry per stored reading.\<close>

definition histories_aligned :: "engine \<Rightarrow> bool" where
  "histories_aligned e =
     (length (temp_history e) = length (reading_history e) \<and>
      length (humidity_history e) = length (reading_history e))"

text \<open>An engine that holds the targets, the hysteresis bands and the safety settings of
  \<^verbatim>\<open>settings.py\<close>.\<close>

definition mango_targets :: "engine \<Rightarrow> bool" where
  "mango_targets e =
     (temp_min e = 10.0 \<and> temp_target e = 11.0 \<and> temp_max e = 12.2 \<and>
      humidity_min e = 85.0 \<and> humidity_target e = 87.5 \<and> humidity_max e = 90.0 \<and>
      temp_hysteresis e = 0.5 \<and> humidity_hysteresis e = 2.0 \<and>
      safety_params e = safety_dict get_config_dict)"

text \<open>The two rates that \<^verbatim>\<open>make_decision\<close> computes, after storing the reading,
  and hands to the assessments.\<close>

definition rates_seen ::
  "engine \<Rightarrow> real \<Rightarrow> real \<Rightarrow> world \<Rightarrow> (py_error + real option) \<times> (py_error + real option)" where
  "rates_seen e t h w =
     (let (e1, w1) = add_reading e t h w;
          (tr, w2) = calculate_rate_of_change e1 (temp_history e1) 60.0 w1;
          (hr, w3) = calculate_rate_of_change e1 (humidity_history e1) 60.0 w2
      in (tr, hr))"

section \<open>Observing the safety sweep\<close>

text \<open>
  \<^verbatim>\<open>check_safety\<close> tests the actuators one after the other, and the clock moves on
  while it does. \<open>sweep_reaches k c w\<close> is the state of its loop when the turn of the
  actuator \<open>k\<close> comes, \<open>exceeded_in_sweep k c w\<close> what \<^verbatim>\<open>is_runtime_exceeded()\<close>
  answers for \<open>k\<close> at that moment, and \<open>level_ok_in_sweep c w\<close> what
  \<^verbatim>\<open>check_water_level()\<close> answers after the loop.
\<close>

definition sweep_reaches :: "actuator_key \<Rightarrow> controller \<Rightarrow> world \<Rightarrow> bool \<times> controller \<times> world" where
  "sweep_reaches k c w = fold sweep_actuator (takeWhile (\<lambda>k'. k' \<noteq> k) actuator_keys) (True, c, w)"

definition exceeded_in_sweep :: "actuator_key \<Rightarrow> controller \<Rightarrow> world \<Rightarrow> bool" where
  "exceeded_in_sweep k c w =
     (let (ok, c', w') = sweep_reaches k c w in fst (is_runtime_exceeded (actuators c' k) w'))"

definition level_ok_in_sweep :: "controller \<Rightarrow> world \<Rightarrow> bool" where
  "level_ok_in_sweep c w =
     (let (ok, c', w') = fold sweep_actuator actuator_keys (True, c, w)
      in fst (check_water_level c' w'))"

text \<open>The world in which the round of \<open>k\<close> begins, and the world in which the loop
  ends. Their \<open>ticks\<close> and \<open>output_calls\<close> tell which clock reads and which pin write
  belong to a round, or to the switching off of the pump after the loop.\<close>

definition round_world :: "actuator_key \<Rightarrow> controller \<Rightarrow> world \<Rightarrow> world" where
  "round_world k c w = snd (snd (sweep_reaches k c w))"

definition loop_world :: "controller \<Rightarrow> world \<Rightarrow> world" where
  "loop_world c w = snd (snd (fold sweep_actuator actuator_keys (True, c, w)))"

section \<open>Concrete inputs\<close>

text \<open>Worlds and states at which the theorems below are instantiated. A world starts
  with no call made and no pin driven.\<close>

definition world_of :: "(nat \<Rightarrow> real) \<Rightarrow> (nat \<Rightarrow> gpio_read) \<Rightarrow> (nat \<Rightarrow> bool) \<Rightarrow> world" where
  "world_of ck lv ok =
     \<lparr> clock = ck, ticks = 0, level_sensor = lv, input_calls = 0, output_ok = ok,
       output_calls = 0, pins = (\<lambda>p. None) \<rparr>"

text \<open>The clock shows 100 at the first read and advances by one second per read; the
  reservoir is full and every write succeeds.\<close>

definition steady_world :: world where
  "steady_world = world_of (\<lambda>n. 100 + real n) (\<lambda>n. Reads HIGH) (\<lambda>n. True)"

text \<open>The same, with the water level sensor reporting low.\<close>

definition dry_world :: world where
  "dry_world = world_of (\<lambda>n. 100 + real n) (\<lambda>n. Reads LOW) (\<lambda>n. True)"

text \<open>The same as \<open>steady_world\<close>, with every output write raising.\<close>

definition broken_world :: world where
  "broken_world = world_of (\<lambda>n. 100 + real n) (\<lambda>n. Reads HIGH) (\<lambda>n. False)"

definition pump0 :: actuator where
  "pump0 = new_actuator ''Water Pump'' 17 10 600 True"

definition faulted_pump :: actuator where
  "faulted_pump = pump0\<lparr>state := FAULT\<rparr>"

text \<open>The controller on a Raspberry Pi (GPIO initialised) with the settings of
  \<^verbatim>\<open>settings.py\<close>, as constructed, and after the chiller or the pump has been
  switched on in \<open>steady_world\<close>.\<close>

definition pi_controller :: controller where
  "pi_controller = new_controller get_config_dict True"

definition chiller_running :: controller where
  "chiller_running = fst (snd (set_chiller pi_controller True steady_world))"

definition pump_running :: controller where
  "pump_running = fst (snd (set_pump pi_controller True steady_world))"

text \<open>More than half an hour later, and a little later with the reservoir empty.\<close>

definition late_world :: world where
  "late_world = world_of (\<lambda>n. 2000 + real n) (\<lambda>n. Reads HIGH) (\<lambda>n. True)"

definition late_dry_world :: world where
  "late_dry_world = world_of (\<lambda>n. 200 + real n) (\<lambda>n. Reads LOW) (\<lambda>n. True)"

text \<open>The engine constructed from the settings of \<^verbatim>\<open>settings.py\<close> at time 100, and
  the same engine holding given readings; \<open>sample ts t\<close> is a reading of temperature
  \<open>t\<close> taken at time \<open>ts\<close>, at the target humidity.\<close>

definition mango_engine :: engine where
  "mango_engine = fst (new_engine get_config_dict steady_world)"

definition sample :: "real \<Rightarrow> real \<Rightarrow> SensorReading" where
  "sample ts t = \<lparr> temperature = t, humidity = 87.5, read_at = ts \<rparr>"

definition engine_with :: "SensorReading list \<Rightarrow> engine" where
  "engine_with rs =
     mango_engine\<lparr> reading_history := rs, temp_history := map temperature rs,
                   humidity_history := map humidity rs \<rparr>"

text \<open>The world right after the construction of \<open>mango_engine\<close>.\<close>

definition started_world :: world where
  "started_world = snd (new_engine get_config_dict steady_world)"

text \<open>A clock given by the list of its successive readings (the last one repeats). In
  \<open>accounting_world\<close> the engine is constructed at time 100 and a decision is executed
  a minute later, half a second passing between the two clock reads of the mode
  change.\<close>

definition clock_of :: "real list \<Rightarrow> nat \<Rightarrow> real" where
  "clock_of ts n = (if n < length ts then ts ! n else last ts)"

definition accounting_world :: world where
  "accounting_world = world_of (clock_of [100, 160, 160.5, 161]) (\<lambda>n. Reads HIGH) (\<lambda>n. True)"

definition spray_decision :: ControlDecision where
  "spray_decision =
     \<lparr> mode = EVAPORATIVE, pump = True, chiller = False, dehumidifier = False,
       reason = Evaporative_cooling Above_target, priority = 6, timestamp = 159 \<rparr>"

text \<open>As \<open>late_world\<close>, with every output write raising.\<close>

definition late_broken_world :: world where
  "late_broken_world = world_of (\<lambda>n. 2000 + real n) (\<lambda>n. Reads HIGH) (\<lambda>n. False)"

text \<open>The engine constructed with no configuration: the defaults of the constructor.\<close>

definition default_engine :: engine where
  "default_engine = fst (new_engine empty_config steady_world)"

section \<open>The cycle-time interlock of \<^verbatim>\<open>turn_on\<close>\<close>

text \<open>
  Claim C2. \<^verbatim>\<open>turn_on\<close> has three outcomes, tried in this order. An actuator that is
  already \<open>ON\<close> is left as it is and the call returns true, without reading the clock.
  Otherwise the call reads the clock once for the gate: when the time elapsed since
  \<open>last_state_change\<close> is strictly less than \<open>min_cycle_time\<close> it returns false and the
  actuator is unchanged in every field; when the elapsed time is at least
  \<open>min_cycle_time\<close> it returns true, and the actuator differs from the old one in
  exactly four fields: \<open>state\<close> is \<open>ON\<close>, \<open>last_state_change\<close> and \<open>runtime_start\<close>
  hold the current time (each assignment reads the clock itself: the two reads that
  follow the gate's), and \<open>cycle_count\<close> is one more than before.
\<close>

theorem turn_on_contract:
  "(state a = ON \<longrightarrow> turn_on a w = (True, a, w)) \<and>
   (state a \<noteq> ON \<and> clock w (ticks w) - last_state_change a < min_cycle_time a \<longrightarrow>
      fst (turn_on a w) = False \<and> fst (snd (turn_on a w)) = a) \<and>
   (state a \<noteq> ON \<and> clock w (ticks w) - last_state_change a \<ge> min_cycle_time a \<longrightarrow>
      fst (turn_on a w) = True \<and>
      fst (snd (turn_on a w)) =
        a\<lparr>state := ON,
          last_state_change := clock w (Suc (ticks w)),
          runtime_start := Some (clock w (Suc (Suc (ticks w)))),
          cycle_count := cycle_count a + 1\<rparr>)"
  by (simp add: turn_on_def can_change_state_def time_time_def Let_def)

text \<open>The three outcomes on the water pump of the default configuration: already on;
  switched 5 seconds ago (less than the 10 seconds of the interlock); never switched.\<close>

theorem turn_on_contract_witness:
  "turn_on (pump0\<lparr>state := ON\<rparr>) steady_world = (True, pump0\<lparr>state := ON\<rparr>, steady_world) \<and>
   fst (turn_on (pump0\<lparr>last_state_change := 95\<rparr>) steady_world) = False \<and>
   fst (snd (turn_on (pump0\<lparr>last_state_change := 95\<rparr>) steady_world))
     = pump0\<lparr>last_state_change := 95\<rparr> \<and>
   fst (turn_on pump0 steady_world) = True \<and>
   fst (snd (turn_on pump0 steady_world))
     = pump0\<lparr>state := ON, last_state_change := 101, runtime_start := Some 102, cycle_count := 1\<rparr>"
  using turn_on_contract [of "pump0\<lparr>state := ON\<rparr>" steady_world]
        turn_on_contract [of "pump0\<lparr>last_state_change := 95\<rparr>" steady_world]
        turn_on_contract [of pump0 steady_world]
  by (simp add: pump0_def new_actuator_def steady_world_def world_of_def)

section \<open>The \<open>FAULT\<close> state\<close>

text \<open>
  Claim C9 says that \<^verbatim>\<open>turn_on\<close> and \<^verbatim>\<open>turn_off\<close> leave a \<open>FAULT\<close> actuator in
  \<open>FAULT\<close>. Neither function looks for \<open>FAULT\<close>: \<^verbatim>\<open>turn_off\<close> returns early only for
  \<open>OFF\<close>, \<^verbatim>\<open>turn_on\<close> only for \<open>ON\<close>. On the faulted water pump, \<^verbatim>\<open>turn_off\<close>
  gives \<open>OFF\<close> and \<^verbatim>\<open>turn_on\<close> gives \<open>ON\<close>.
\<close>

theorem fault_left_counterexample:
  "state faulted_pump = FAULT \<and>
   state (fst (snd (turn_off faulted_pump steady_world))) = OFF \<and>
   state (fst (snd (turn_on faulted_pump steady_world))) = ON"
  by (simp add: faulted_pump_def pump0_def new_actuator_def steady_world_def world_of_def
        turn_off_def turn_on_def can_change_state_def time_time_def truthy_def Let_def)

text \<open>
  Claim C9, amended. On an actuator in \<open>FAULT\<close>, \<^verbatim>\<open>turn_off\<close> always returns true and
  sets the state to \<open>OFF\<close>; \<^verbatim>\<open>turn_on\<close> returns true and sets the state to \<open>ON\<close>
  when the cycle-time gate passes, and returns false leaving the state \<open>FAULT\<close> only
  when the gate refuses.
\<close>

theorem fault_not_terminal:
  "state a = FAULT \<Longrightarrow>
     fst (turn_off a w) = True \<and>
     state (fst (snd (turn_off a w))) = OFF \<and>
     fst (turn_on a w) = (clock w (ticks w) - last_state_change a \<ge> min_cycle_time a) \<and>
     state (fst (snd (turn_on a w))) =
       (if clock w (ticks w) - last_state_change a \<ge> min_cycle_time a then ON else FAULT)"
  by (simp add: turn_off_def turn_on_def can_change_state_def time_time_def truthy_def Let_def
        split: option.splits)

theorem fault_not_terminal_witness:
  "state faulted_pump = FAULT \<and>
   fst (turn_off faulted_pump steady_world) = True \<and>
   state (fst (snd (turn_off faulted_pump steady_world))) = OFF \<and>
   fst (turn_on faulted_pump steady_world) = True \<and>
   state (fst (snd (turn_on faulted_pump steady_world))) = ON \<and>
   state (faulted_pump\<lparr>last_state_change := 95\<rparr>) = FAULT \<and>
   fst (turn_on (faulted_pump\<lparr>last_state_change := 95\<rparr>) steady_world) = False \<and>
   state (fst (snd (turn_on (faulted_pump\<lparr>last_state_change := 95\<rparr>) steady_world))) = FAULT"
  using fault_not_terminal [of faulted_pump steady_world]
        fault_not_terminal [of "faulted_pump\<lparr>last_state_change := 95\<rparr>" steady_world]
  by (simp add: faulted_pump_def pump0_def new_actuator_def steady_world_def world_of_def)

text \<open>
  Claim C5 says that \<open>runtime_start\<close> is set exactly when the state is \<open>ON\<close>, also
  across the \<open>FAULT\<close> transition. \<^verbatim>\<open>turn_off\<close> and \<^verbatim>\<open>emergency_stop\<close> clear
  \<open>runtime_start\<close> when they leave \<open>ON\<close>; the assignment of \<open>FAULT\<close> in
  \<^verbatim>\<open>_set_gpio_state\<close> does not. On the controller as constructed, with the reservoir
  full and the output write raising, \<^verbatim>\<open>set_pump(True)\<close> returns true and leaves the
  pump in \<open>FAULT\<close> with \<open>runtime_start\<close> set.
\<close>

theorem fault_keeps_runtime_start:
  "fst (set_pump pi_controller True broken_world) = True \<and>
   state (actuators (fst (snd (set_pump pi_controller True broken_world))) Pump) = FAULT \<and>
   runtime_start (actuators (fst (snd (set_pump pi_controller True broken_world))) Pump) = Some 102"
  by (simp add: pi_controller_def new_controller_def get_config_dict_def dict_get_def
        new_actuator_def broken_world_def world_of_def set_pump_def check_water_level_def
        GPIO_input_def command_def turn_on_def can_change_state_def time_time_def
        set_gpio_state_def GPIO_output_def Let_def)

section \<open>The water gate of \<^verbatim>\<open>set_pump\<close>\<close>

text \<open>
  Claim C3. Whenever \<^verbatim>\<open>check_water_level()\<close> fails, \<^verbatim>\<open>set_pump(True)\<close> returns
  false; no actuator is touched (so the pump keeps its state, \<open>runtime_start\<close>,
  \<open>last_state_change\<close>, \<open>total_runtime\<close> and \<open>cycle_count\<close>); no pin is written and
  no write is attempted. The level is read from the sensor at that moment (one more
  \<^verbatim>\<open>GPIO.input\<close> call has been made), and the cached flag \<open>water_level_ok\<close> has no
  part in it: whatever the flag holds, the check and the command fail alike.
\<close>

theorem set_pump_water_gate:
  assumes "fst (check_water_level c w) = False"
  shows "fst (set_pump c True w) = False \<and>
         actuators (fst (snd (set_pump c True w))) = actuators c \<and>
         pins (snd (snd (set_pump c True w))) = pins w \<and>
         output_calls (snd (snd (set_pump c True w))) = output_calls w \<and>
         input_calls (snd (snd (set_pump c True w))) = Suc (input_calls w) \<and>
         fst (check_water_level (c\<lparr>water_level_ok := cached\<rparr>) w) = False \<and>
         fst (set_pump (c\<lparr>water_level_ok := cached\<rparr>) True w) = False"
  using assms
  by (auto simp add: set_pump_def check_water_level_def GPIO_input_def Let_def
        split: if_splits gpio_read.splits prod.splits)

text \<open>The cached flag says that the level is fine, the sensor says that it is low.\<close>

theorem set_pump_water_gate_witness:
  "water_level_ok (pi_controller\<lparr>water_level_ok := True\<rparr>) = True \<and>
   fst (check_water_level (pi_controller\<lparr>water_level_ok := True\<rparr>) dry_world) = False \<and>
   fst (set_pump (pi_controller\<lparr>water_level_ok := True\<rparr>) True dry_world) = False \<and>
   actuators (fst (snd (set_pump (pi_controller\<lparr>water_level_ok := True\<rparr>) True dry_world)))
     = actuators (pi_controller\<lparr>water_level_ok := True\<rparr>) \<and>
   pins (snd (snd (set_pump (pi_controller\<lparr>water_level_ok := True\<rparr>) True dry_world))) = pins dry_world"
proof -
  have h: "fst (check_water_level (pi_controller\<lparr>water_level_ok := True\<rparr>) dry_world) = False"
    by (simp add: pi_controller_def new_controller_def get_config_dict_def dict_get_def
        dry_world_def world_of_def check_water_level_def GPIO_input_def Let_def)
  show ?thesis using h set_pump_water_gate [OF h] by simp
qed

section \<open>The safety sweep\<close>

text \<open>What the test of the runtime, the switching off of a running actuator, one round of
  the loop and the water level check do, field by field and pin by pin.\<close>

lemma exceeded_start:
  assumes "fst (is_runtime_exceeded a w)"
  shows "state a = ON \<and> (\<exists>s. runtime_start a = Some s \<and> s \<noteq> 0) \<and>
         snd (is_runtime_exceeded a w) = w\<lparr>ticks := Suc (ticks w)\<rparr>"
  using assms
  by (auto simp: is_runtime_exceeded_def truthy_def time_time_def Let_def
        split: option.splits if_splits)

lemma not_exceeded_world:
  "\<not> fst (is_runtime_exceeded a w) \<Longrightarrow>
     clock (snd (is_runtime_exceeded a w)) = clock w \<and>
     output_ok (snd (is_runtime_exceeded a w)) = output_ok w \<and>
     output_calls (snd (is_runtime_exceeded a w)) = output_calls w \<and>
     pins (snd (is_runtime_exceeded a w)) = pins w"
  by (auto simp: is_runtime_exceeded_def time_time_def Let_def split: option.splits if_splits)

lemma turn_off_running:
  assumes "state a = ON"
  shows "turn_off a w =
     (True,
      a\<lparr>total_runtime :=
           (case runtime_start a of
              Some s \<Rightarrow> if s \<noteq> 0 then total_runtime a + (clock w (ticks w) - s) else total_runtime a
            | None \<Rightarrow> total_runtime a),
        state := OFF,
        last_state_change := clock w (if truthy (runtime_start a) then Suc (ticks w) else ticks w),
        runtime_start := None\<rparr>,
      w\<lparr>ticks := (if truthy (runtime_start a) then Suc (Suc (ticks w)) else Suc (ticks w))\<rparr>)"
  using assms
  by (auto simp: turn_off_def truthy_def time_time_def Let_def split: option.splits)

lemma command_off_running:
  assumes on: "state (actuators c k) = ON" and cmd: "command c k False w = (r, c', w')"
  shows "actuators c' = (actuators c)(k := (actuators c k)
           \<lparr>total_runtime :=
              (case runtime_start (actuators c k) of
                 Some s \<Rightarrow> if s \<noteq> 0 then total_runtime (actuators c k) + (clock w (ticks w) - s)
                           else total_runtime (actuators c k)
               | None \<Rightarrow> total_runtime (actuators c k)),
            state := (if gpio_initialized c \<and> \<not> output_ok w (output_calls w) then FAULT else OFF),
            last_state_change :=
              clock w (if truthy (runtime_start (actuators c k)) then Suc (ticks w) else ticks w),
            runtime_start := None\<rparr>)"
    and "gpio_initialized c' = gpio_initialized c"
    and "safety_config c' = safety_config c"
    and "clock w' = clock w"
    and "output_ok w' = output_ok w"
    and "pins w' =
          (if gpio_initialized c \<and> output_ok w (output_calls w)
           then (pins w)(gpio_pin (actuators c k) \<mapsto> (if active_low (actuators c k) then HIGH else LOW))
           else pins w)"
    and "output_calls w' = (if gpio_initialized c then Suc (output_calls w) else output_calls w)"
  using cmd
  by (auto simp: command_def turn_off_running [OF on] set_gpio_state_def GPIO_output_def Let_def
        split: if_splits)


lemma sweep_actuator_round:
  assumes "sweep_actuator k (ok, c, w) = (ok', c', w')"
  shows "ok' = (ok \<and> \<not> fst (is_runtime_exceeded (actuators c k) w)) \<and>
         gpio_initialized c' = gpio_initialized c \<and> safety_config c' = safety_config c \<and>
         clock w' = clock w \<and> output_ok w' = output_ok w \<and>
         (\<forall>j. j \<noteq> k \<longrightarrow> actuators c' j = actuators c j) \<and>
         (\<forall>p. p \<noteq> gpio_pin (actuators c k) \<longrightarrow> pins w' p = pins w p) \<and>
         (\<not> fst (is_runtime_exceeded (actuators c k) w) \<longrightarrow>
            actuators c' k = actuators c k \<and> pins w' = pins w \<and> output_calls w' = output_calls w) \<and>
         (fst (is_runtime_exceeded (actuators c k) w) \<longrightarrow>
            (\<exists>s. runtime_start (actuators c k) = Some s \<and>
               actuators c' k = (actuators c k)
                 \<lparr>total_runtime := total_runtime (actuators c k) + (clock w (Suc (ticks w)) - s),
                  state := (if gpio_initialized c \<and> \<not> output_ok w (output_calls w) then FAULT else OFF),
                  last_state_change := clock w (Suc (Suc (ticks w))),
                  runtime_start := None\<rparr>) \<and>
            (gpio_initialized c \<and> output_ok w (output_calls w) \<longrightarrow>
               pins w' (gpio_pin (actuators c k)) =
                 Some (if active_low (actuators c k) then HIGH else LOW)))"
proof (cases "fst (is_runtime_exceeded (actuators c k) w)")
  case False
  with assms show ?thesis
    using not_exceeded_world [OF False]
    by (auto simp: sweep_actuator_def Let_def split: prod.splits)
next
  case True
  from exceeded_start [OF True]
  obtain s where on: "state (actuators c k) = ON"
    and s: "runtime_start (actuators c k) = Some s" "s \<noteq> 0"
    and w1: "snd (is_runtime_exceeded (actuators c k) w) = w\<lparr>ticks := Suc (ticks w)\<rparr>"
    by blast
  have e: "is_runtime_exceeded (actuators c k) w = (True, w\<lparr>ticks := Suc (ticks w)\<rparr>)"
    using True w1 by (cases "is_runtime_exceeded (actuators c k) w") auto
  obtain r where cmd: "command c k False (w\<lparr>ticks := Suc (ticks w)\<rparr>) = (r, c', w')"
    and ok': "ok' = False"
    using assms e
    by (cases k) (auto simp: sweep_actuator_def set_pump_def set_chiller_def
        set_dehumidifier_def Let_def split: prod.splits)
  note f = command_off_running [OF on cmd]
  have a: "actuators c' k = (actuators c k)
                 \<lparr>total_runtime := total_runtime (actuators c k) + (clock w (Suc (ticks w)) - s),
                  state := (if gpio_initialized c \<and> \<not> output_ok w (output_calls w) then FAULT else OFF),
                  last_state_change := clock w (Suc (Suc (ticks w))),
                  runtime_start := None\<rparr>"
    using f(1) s by (simp add: truthy_def)
  have others: "\<forall>j. j \<noteq> k \<longrightarrow> actuators c' j = actuators c j"
    using f(1) by simp
  have frame: "\<forall>p. p \<noteq> gpio_pin (actuators c k) \<longrightarrow> pins w' p = pins w p"
    using f(6) by simp
  have pin: "gpio_initialized c \<and> output_ok w (output_calls w) \<longrightarrow>
               pins w' (gpio_pin (actuators c k)) =
                 Some (if active_low (actuators c k) then HIGH else LOW)"
    using f(6) by simp
  from True ok' a s(1) others frame pin f(2) f(3) f(4) f(5) show ?thesis
    by simp
qed

lemma check_water_level_effect:
  assumes "check_water_level c w = (lv, c', w')"
  shows "actuators c' = actuators c \<and> gpio_initialized c' = gpio_initialized c \<and>
         safety_config c' = safety_config c \<and> output_ok w' = output_ok w \<and>
         clock w' = clock w \<and> ticks w' = ticks w \<and> output_calls w' = output_calls w \<and>
         pins w' = pins w"
  using assms
  by (auto simp: check_water_level_def GPIO_input_def Let_def
        split: if_splits prod.splits gpio_read.splits)

lemma all_actuator_keys: "(\<forall>k. P k) = (P Pump \<and> P Chiller \<and> P Dehumidifier)"
  by (metis actuator_key.exhaust)

text \<open>The controllers and worlds of the examples, evaluated.\<close>

lemma chiller_running_actuators:
  "actuators chiller_running =
     (actuators pi_controller)(Chiller := (new_actuator ''Chiller'' 27 10 1800 True)
       \<lparr>state := ON, last_state_change := 101, runtime_start := Some 102, cycle_count := 1\<rparr>)"
  "gpio_initialized chiller_running"
  "safety_config chiller_running = safety_dict get_config_dict"
  by (simp_all add: chiller_running_def pi_controller_def new_controller_def get_config_dict_def
        dict_get_def new_actuator_def steady_world_def world_of_def set_chiller_def command_def
        turn_on_def can_change_state_def time_time_def set_gpio_state_def GPIO_output_def Let_def)

lemma pump_running_actuators:
  "actuators pump_running =
     (actuators pi_controller)(Pump := (new_actuator ''Water Pump'' 17 10 600 True)
       \<lparr>state := ON, last_state_change := 101, runtime_start := Some 102, cycle_count := 1\<rparr>)"
  "gpio_initialized pump_running"
  "safety_config pump_running = safety_dict get_config_dict"
  by (simp_all add: pump_running_def pi_controller_def new_controller_def get_config_dict_def
        dict_get_def new_actuator_def steady_world_def world_of_def set_pump_def
        check_water_level_def GPIO_input_def command_def
        turn_on_def can_change_state_def time_time_def set_gpio_state_def GPIO_output_def Let_def)

lemma pi_controller_actuators:
  "actuators pi_controller Pump = new_actuator ''Water Pump'' 17 10 600 True"
  "actuators pi_controller Chiller = new_actuator ''Chiller'' 27 10 1800 True"
  "actuators pi_controller Dehumidifier = new_actuator ''Dehumidifier'' 22 10 1200 True"
  by (simp_all add: pi_controller_def new_controller_def get_config_dict_def dict_get_def)

lemma chiller_running_sweep:
  "\<not> exceeded_in_sweep Pump chiller_running late_world"
  "exceeded_in_sweep Chiller chiller_running late_world"
  "\<not> exceeded_in_sweep Dehumidifier chiller_running late_world"
  "level_ok_in_sweep chiller_running late_world"
  "round_world Chiller chiller_running late_world = late_world"
  "exceeded_in_sweep Chiller chiller_running late_broken_world"
  "round_world Chiller chiller_running late_broken_world = late_broken_world"
  by (simp_all add: exceeded_in_sweep_def level_ok_in_sweep_def round_world_def sweep_reaches_def
        actuator_keys_def sweep_actuator_def is_runtime_exceeded_def truthy_def time_time_def
        late_world_def late_broken_world_def world_of_def chiller_running_actuators
        pi_controller_actuators new_actuator_def
        set_chiller_def command_def turn_off_def set_gpio_state_def GPIO_output_def
        check_water_level_def GPIO_input_def get_config_dict_def dict_get_def Let_def)

lemma pump_running_sweep:
  "\<not> exceeded_in_sweep Pump pump_running late_dry_world"
  "\<not> exceeded_in_sweep Chiller pump_running late_dry_world"
  "\<not> exceeded_in_sweep Dehumidifier pump_running late_dry_world"
  "\<not> level_ok_in_sweep pump_running late_dry_world"
  "ticks (loop_world pump_running late_dry_world) = 1"
  "output_calls (loop_world pump_running late_dry_world) = 0"
  by (simp_all add: exceeded_in_sweep_def level_ok_in_sweep_def loop_world_def sweep_reaches_def
        actuator_keys_def sweep_actuator_def is_runtime_exceeded_def truthy_def time_time_def
        late_dry_world_def world_of_def pump_running_actuators
        pi_controller_actuators new_actuator_def
        check_water_level_def GPIO_input_def get_config_dict_def dict_get_def Let_def)

text \<open>
  Claim C4 says that \<^verbatim>\<open>check_safety\<close> returns true if and only if no intervention
  was needed, and that it forces \<open>OFF\<close> every actuator that has run too long. With every
  actuator \<open>OFF\<close> and the reservoir empty there is nothing to switch off, and nothing
  is switched: no actuator changes and no pin write is attempted. Yet the sweep returns
  false, because \<^verbatim>\<open>all_ok = False\<close> follows the failed water level check whether or
  not the pump was running. And when the chiller has run too long and the write to its
  pin raises, the sweep leaves the chiller in \<open>FAULT\<close>, not in \<open>OFF\<close>.
\<close>

theorem check_safety_counterexample:
  "state (actuators pi_controller Pump) = OFF \<and>
   state (actuators pi_controller Chiller) = OFF \<and>
   state (actuators pi_controller Dehumidifier) = OFF \<and>
   fst (check_safety pi_controller dry_world) = False \<and>
   actuators (fst (snd (check_safety pi_controller dry_world))) = actuators pi_controller \<and>
   output_calls (snd (snd (check_safety pi_controller dry_world))) = output_calls dry_world \<and>
   exceeded_in_sweep Chiller chiller_running late_broken_world \<and>
   state (actuators (fst (snd (check_safety chiller_running late_broken_world))) Chiller) = FAULT"
  by (simp add: chiller_running_sweep)
     (simp add: pi_controller_def new_controller_def get_config_dict_def dict_get_def
        new_actuator_def dry_world_def late_broken_world_def world_of_def check_safety_def
        sweep_actuator_def actuator_keys_def is_runtime_exceeded_def truthy_def time_time_def
        check_water_level_def GPIO_input_def chiller_running_actuators
        set_chiller_def command_def turn_off_def set_gpio_state_def GPIO_output_def Let_def)

text \<open>
  Claim C4, amended. The sweep returns true if and only if no actuator had exceeded its
  runtime and the water level check passed: it returns what its docstring says, "True
  if all safety checks pass".

  Every actuator whose \<^verbatim>\<open>is_runtime_exceeded()\<close> is true when the sweep tests it is
  switched off through \<^verbatim>\<open>turn_off\<close>, not through \<^verbatim>\<open>emergency_stop\<close>: the time it
  has run, up to the clock read that follows the test, is added to \<open>total_runtime\<close>,
  \<open>last_state_change\<close> is the clock read after that, \<open>runtime_start\<close> is cleared, no
  other field changes, and the state is \<open>OFF\<close>, unless the controller drives real pins
  and the write of this round raises, which marks the actuator \<open>FAULT\<close>. When the write
  succeeds the pin carries the level that releases the relay (\<open>HIGH\<close> for an active-low
  relay) at the end of the sweep, provided no other actuator shares the pin.

  When the water level check after the loop fails and the pump is \<open>ON\<close> (it was \<open>ON\<close>
  and had not exceeded its runtime), the pump is switched off in the same way, from the
  clock reads that follow the loop. Every other actuator is left exactly as it was.
\<close>

theorem check_safety_sweep:
  "fst (check_safety c w) = ((\<forall>k. \<not> exceeded_in_sweep k c w) \<and> level_ok_in_sweep c w) \<and>
   (\<forall>k. exceeded_in_sweep k c w \<longrightarrow>
      (\<exists>s. runtime_start (actuators c k) = Some s \<and>
         actuators (fst (snd (check_safety c w))) k = (actuators c k)
           \<lparr>total_runtime :=
              total_runtime (actuators c k) + (clock w (Suc (ticks (round_world k c w))) - s),
            state := (if gpio_initialized c \<and> \<not> output_ok w (output_calls (round_world k c w))
                      then FAULT else OFF),
            last_state_change := clock w (Suc (Suc (ticks (round_world k c w)))),
            runtime_start := None\<rparr>) \<and>
      (gpio_initialized c \<and> output_ok w (output_calls (round_world k c w)) \<and>
       (\<forall>j. j \<noteq> k \<longrightarrow> gpio_pin (actuators c j) \<noteq> gpio_pin (actuators c k)) \<longrightarrow>
         pins (snd (snd (check_safety c w))) (gpio_pin (actuators c k)) =
           Some (if active_low (actuators c k) then HIGH else LOW))) \<and>
   (\<not> level_ok_in_sweep c w \<and> state (actuators c Pump) = ON \<and> \<not> exceeded_in_sweep Pump c w \<longrightarrow>
      actuators (fst (snd (check_safety c w))) Pump = (actuators c Pump)
        \<lparr>total_runtime :=
           (case runtime_start (actuators c Pump) of
              Some s \<Rightarrow> if s \<noteq> 0
                        then total_runtime (actuators c Pump) + (clock w (ticks (loop_world c w)) - s)
                        else total_runtime (actuators c Pump)
            | None \<Rightarrow> total_runtime (actuators c Pump)),
         state := (if gpio_initialized c \<and> \<not> output_ok w (output_calls (loop_world c w))
                   then FAULT else OFF),
         last_state_change :=
           clock w (if truthy (runtime_start (actuators c Pump)) then Suc (ticks (loop_world c w))
                    else ticks (loop_world c w)),
         runtime_start := None\<rparr> \<and>
      (gpio_initialized c \<and> output_ok w (output_calls (loop_world c w)) \<longrightarrow>
         pins (snd (snd (check_safety c w))) (gpio_pin (actuators c Pump)) =
           Some (if active_low (actuators c Pump) then HIGH else LOW))) \<and>
   (\<forall>k. \<not> exceeded_in_sweep k c w \<and>
        \<not> (k = Pump \<and> \<not> level_ok_in_sweep c w \<and> state (actuators c Pump) = ON) \<longrightarrow>
      actuators (fst (snd (check_safety c w))) k = actuators c k)"
proof -
  obtain ok1 c1 w1 where s1: "sweep_actuator Pump (True, c, w) = (ok1, c1, w1)"
    by (cases "sweep_actuator Pump (True, c, w)") auto
  obtain ok2 c2 w2 where s2: "sweep_actuator Chiller (ok1, c1, w1) = (ok2, c2, w2)"
    by (cases "sweep_actuator Chiller (ok1, c1, w1)") auto
  obtain ok3 c3 w3 where s3: "sweep_actuator Dehumidifier (ok2, c2, w2) = (ok3, c3, w3)"
    by (cases "sweep_actuator Dehumidifier (ok2, c2, w2)") auto
  obtain lv c4 w4 where wl: "check_water_level c3 w3 = (lv, c4, w4)"
    by (cases "check_water_level c3 w3") auto
  obtain r c5 w5 where sp: "command c4 Pump False w4 = (r, c5, w5)"
    by (cases "command c4 Pump False w4") auto
  note e1 = sweep_actuator_round [OF s1]
  note e2 = sweep_actuator_round [OF s2]
  note e3 = sweep_actuator_round [OF s3]
  note e4 = check_water_level_effect [OF wl]
  have loop: "fold sweep_actuator actuator_keys (True, c, w) = (ok3, c3, w3)"
    by (simp add: actuator_keys_def s1 s2 s3)
  have rw: "round_world Pump c w = w" "round_world Chiller c w = w1"
           "round_world Dehumidifier c w = w2" "loop_world c w = w3"
    by (simp_all add: round_world_def loop_world_def sweep_reaches_def actuator_keys_def s1 s2 s3)
  have own: "actuators c1 Chiller = actuators c Chiller"
            "actuators c2 Dehumidifier = actuators c Dehumidifier"
    using e1 e2 by simp_all
  have xp: "exceeded_in_sweep Pump c w = fst (is_runtime_exceeded (actuators c Pump) w)"
    by (simp add: exceeded_in_sweep_def sweep_reaches_def actuator_keys_def)
  have xc: "exceeded_in_sweep Chiller c w = fst (is_runtime_exceeded (actuators c Chiller) w1)"
    by (simp add: exceeded_in_sweep_def sweep_reaches_def actuator_keys_def s1 own)
  have xd: "exceeded_in_sweep Dehumidifier c w
              = fst (is_runtime_exceeded (actuators c Dehumidifier) w2)"
    by (simp add: exceeded_in_sweep_def sweep_reaches_def actuator_keys_def s1 s2 own)
  have lvl: "level_ok_in_sweep c w = lv"
    by (simp add: level_ok_in_sweep_def loop wl)
  have env: "gpio_initialized c1 = gpio_initialized c" "gpio_initialized c2 = gpio_initialized c"
            "gpio_initialized c4 = gpio_initialized c"
            "clock w1 = clock w" "clock w2 = clock w" "clock w4 = clock w"
            "output_ok w1 = output_ok w" "output_ok w2 = output_ok w" "output_ok w4 = output_ok w"
            "ticks w4 = ticks w3" "output_calls w4 = output_calls w3" "pins w4 = pins w3"
    using e1 e2 e3 e4 by simp_all
  define forced where "forced = (\<not> lv \<and> state (actuators c4 Pump) = ON)"
  define cf where "cf = (if forced then c5 else c4)"
  define wf where "wf = (if forced then w5 else w4)"
  have res: "check_safety c w = (if \<not> lv then False else ok3, cf, wf)"
    by (simp add: check_safety_def loop wl set_pump_def sp cf_def wf_def forced_def)
  have ret: "fst (check_safety c w) = (ok3 \<and> lv)"
    by (auto simp: res)
  have fin: "fst (snd (check_safety c w)) = cf" "snd (snd (check_safety c w)) = wf"
    by (simp_all add: res)
  have ok3: "ok3 = (\<not> exceeded_in_sweep Pump c w \<and> \<not> exceeded_in_sweep Chiller c w \<and>
                    \<not> exceeded_in_sweep Dehumidifier c w)"
    using e1 e2 e3 by (auto simp: xp xc xd own)
  have p4: "actuators c4 Pump = actuators c1 Pump"
    using e2 e3 e4 by simp
  have ch4: "actuators c4 Chiller = actuators c2 Chiller"
    using e3 e4 by simp
  have de4: "actuators c4 Dehumidifier = actuators c3 Dehumidifier"
    using e4 by simp
  have cmd: "forced \<Longrightarrow>
      actuators c5 = (actuators c4)(Pump := (actuators c4 Pump)
           \<lparr>total_runtime :=
              (case runtime_start (actuators c4 Pump) of
                 Some s \<Rightarrow> if s \<noteq> 0 then total_runtime (actuators c4 Pump) + (clock w4 (ticks w4) - s)
                           else total_runtime (actuators c4 Pump)
               | None \<Rightarrow> total_runtime (actuators c4 Pump)),
            state := (if gpio_initialized c4 \<and> \<not> output_ok w4 (output_calls w4) then FAULT else OFF),
            last_state_change :=
              clock w4 (if truthy (runtime_start (actuators c4 Pump)) then Suc (ticks w4) else ticks w4),
            runtime_start := None\<rparr>) \<and>
      pins w5 =
          (if gpio_initialized c4 \<and> output_ok w4 (output_calls w4)
           then (pins w4)(gpio_pin (actuators c4 Pump) \<mapsto>
                  (if active_low (actuators c4 Pump) then HIGH else LOW))
           else pins w4)"
  proof -
    assume "forced"
    then have on: "state (actuators c4 Pump) = ON" by (simp add: forced_def)
    from command_off_running(1) [OF on sp] command_off_running(6) [OF on sp]
    show ?thesis by simp
  qed
  have cf_other: "actuators cf Chiller = actuators c2 Chiller"
                 "actuators cf Dehumidifier = actuators c3 Dehumidifier"
    using cmd ch4 de4 by (auto simp: cf_def)
  have cf_pump: "\<not> forced \<Longrightarrow> actuators cf Pump = actuators c1 Pump"
    by (simp add: cf_def p4)
  have wf_frame: "p \<noteq> gpio_pin (actuators c4 Pump) \<Longrightarrow> pins wf p = pins w3 p" for p
    using cmd env by (auto simp: wf_def)
  have wf_keep: "\<not> forced \<Longrightarrow> pins wf = pins w3"
    using env by (simp add: wf_def)
  have pin_p: "gpio_pin (actuators c4 Pump) = gpio_pin (actuators c Pump)"
  proof (cases "exceeded_in_sweep Pump c w")
    case True
    with e1 obtain s where "actuators c1 Pump = (actuators c Pump)
           \<lparr>total_runtime := total_runtime (actuators c Pump) + (clock w (Suc (ticks w)) - s),
            state := (if gpio_initialized c \<and> \<not> output_ok w (output_calls w) then FAULT else OFF),
            last_state_change := clock w (Suc (Suc (ticks w))),
            runtime_start := None\<rparr>"
      by (auto simp: xp)
    then show ?thesis by (simp add: p4)
  next
    case False
    with e1 show ?thesis by (simp add: p4 xp)
  qed
  have P: "exceeded_in_sweep Pump c w \<Longrightarrow>
      (\<exists>s. runtime_start (actuators c Pump) = Some s \<and>
         actuators cf Pump = (actuators c Pump)
           \<lparr>total_runtime := total_runtime (actuators c Pump) + (clock w (Suc (ticks w)) - s),
            state := (if gpio_initialized c \<and> \<not> output_ok w (output_calls w) then FAULT else OFF),
            last_state_change := clock w (Suc (Suc (ticks w))),
            runtime_start := None\<rparr>) \<and>
      (gpio_initialized c \<and> output_ok w (output_calls w) \<and>
       (\<forall>j. j \<noteq> Pump \<longrightarrow> gpio_pin (actuators c j) \<noteq> gpio_pin (actuators c Pump)) \<longrightarrow>
         pins wf (gpio_pin (actuators c Pump)) =
           Some (if active_low (actuators c Pump) then HIGH else LOW))"
  proof -
    assume x: "exceeded_in_sweep Pump c w"
    with e1 obtain s where s: "runtime_start (actuators c Pump) = Some s"
      and a: "actuators c1 Pump = (actuators c Pump)
           \<lparr>total_runtime := total_runtime (actuators c Pump) + (clock w (Suc (ticks w)) - s),
            state := (if gpio_initialized c \<and> \<not> output_ok w (output_calls w) then FAULT else OFF),
            last_state_change := clock w (Suc (Suc (ticks w))),
            runtime_start := None\<rparr>"
      by (auto simp: xp)
    from a have "state (actuators c4 Pump) \<noteq> ON" by (simp add: p4)
    then have nf: "\<not> forced" by (simp add: forced_def)
    have rec: "actuators cf Pump = (actuators c Pump)
           \<lparr>total_runtime := total_runtime (actuators c Pump) + (clock w (Suc (ticks w)) - s),
            state := (if gpio_initialized c \<and> \<not> output_ok w (output_calls w) then FAULT else OFF),
            last_state_change := clock w (Suc (Suc (ticks w))),
            runtime_start := None\<rparr>"
      using cf_pump [OF nf] a by simp
    have pin: "pins wf (gpio_pin (actuators c Pump)) =
                 Some (if active_low (actuators c Pump) then HIGH else LOW)"
      if h: "gpio_initialized c" "output_ok w (output_calls w)"
            "\<forall>j. j \<noteq> Pump \<longrightarrow> gpio_pin (actuators c j) \<noteq> gpio_pin (actuators c Pump)"
    proof -
      from e1 x h have "pins w1 (gpio_pin (actuators c Pump)) =
                 Some (if active_low (actuators c Pump) then HIGH else LOW)"
        by (simp add: xp)
      moreover from h(3) have "gpio_pin (actuators c Pump) \<noteq> gpio_pin (actuators c1 Chiller)"
           "gpio_pin (actuators c Pump) \<noteq> gpio_pin (actuators c2 Dehumidifier)"
        by (auto simp: own)
      ultimately show ?thesis
        using e2 e3 wf_keep [OF nf] by simp
    qed
    from s rec pin show ?thesis by blast
  qed
  have C: "exceeded_in_sweep Chiller c w \<Longrightarrow>
      (\<exists>s. runtime_start (actuators c Chiller) = Some s \<and>
         actuators cf Chiller = (actuators c Chiller)
           \<lparr>total_runtime := total_runtime (actuators c Chiller) + (clock w (Suc (ticks w1)) - s),
            state := (if gpio_initialized c \<and> \<not> output_ok w (output_calls w1) then FAULT else OFF),
            last_state_change := clock w (Suc (Suc (ticks w1))),
            runtime_start := None\<rparr>) \<and>
      (gpio_initialized c \<and> output_ok w (output_calls w1) \<and>
       (\<forall>j. j \<noteq> Chiller \<longrightarrow> gpio_pin (actuators c j) \<noteq> gpio_pin (actuators c Chiller)) \<longrightarrow>
         pins wf (gpio_pin (actuators c Chiller)) =
           Some (if active_low (actuators c Chiller) then HIGH else LOW))"
  proof -
    assume x: "exceeded_in_sweep Chiller c w"
    with e2 obtain s where s: "runtime_start (actuators c Chiller) = Some s"
      and a: "actuators c2 Chiller = (actuators c Chiller)
           \<lparr>total_runtime := total_runtime (actuators c Chiller) + (clock w (Suc (ticks w1)) - s),
            state := (if gpio_initialized c \<and> \<not> output_ok w (output_calls w1) then FAULT else OFF),
            last_state_change := clock w (Suc (Suc (ticks w1))),
            runtime_start := None\<rparr>"
      by (auto simp: xc own env)
    have pin: "pins wf (gpio_pin (actuators c Chiller)) =
                 Some (if active_low (actuators c Chiller) then HIGH else LOW)"
      if h: "gpio_initialized c" "output_ok w (output_calls w1)"
            "\<forall>j. j \<noteq> Chiller \<longrightarrow> gpio_pin (actuators c j) \<noteq> gpio_pin (actuators c Chiller)"
    proof -
      from e2 x h have "pins w2 (gpio_pin (actuators c Chiller)) =
                 Some (if active_low (actuators c Chiller) then HIGH else LOW)"
        by (simp add: xc own env)
      moreover from h(3) have "gpio_pin (actuators c Chiller) \<noteq> gpio_pin (actuators c2 Dehumidifier)"
           "gpio_pin (actuators c Chiller) \<noteq> gpio_pin (actuators c4 Pump)"
        by (auto simp: own pin_p)
      ultimately show ?thesis
        using e3 wf_frame by simp
    qed
    from s a pin show ?thesis by (simp add: cf_other)
  qed
  have D: "exceeded_in_sweep Dehumidifier c w \<Longrightarrow>
      (\<exists>s. runtime_start (actuators c Dehumidifier) = Some s \<and>
         actuators cf Dehumidifier = (actuators c Dehumidifier)
           \<lparr>total_runtime := total_runtime (actuators c Dehumidifier) + (clock w (Suc (ticks w2)) - s),
            state := (if gpio_initialized c \<and> \<not> output_ok w (output_calls w2) then FAULT else OFF),
            last_state_change := clock w (Suc (Suc (ticks w2))),
            runtime_start := None\<rparr>) \<and>
      (gpio_initialized c \<and> output_ok w (output_calls w2) \<and>
       (\<forall>j. j \<noteq> Dehumidifier \<longrightarrow> gpio_pin (actuators c j) \<noteq> gpio_pin (actuators c Dehumidifier)) \<longrightarrow>
         pins wf (gpio_pin (actuators c Dehumidifier)) =
           Some (if active_low (actuators c Dehumidifier) then HIGH else LOW))"
  proof -
    assume x: "exceeded_in_sweep Dehumidifier c w"
    with e3 obtain s where s: "runtime_start (actuators c Dehumidifier) = Some s"
      and a: "actuators c3 Dehumidifier = (actuators c Dehumidifier)
           \<lparr>total_runtime := total_runtime (actuators c Dehumidifier) + (clock w (Suc (ticks w2)) - s),
            state := (if gpio_initialized c \<and> \<not> output_ok w (output_calls w2) then FAULT else OFF),
            last_state_change := clock w (Suc (Suc (ticks w2))),
            runtime_start := None\<rparr>"
      by (auto simp: xd own env)
    have pin: "pins wf (gpio_pin (actuators c Dehumidifier)) =
                 Some (if active_low (actuators c Dehumidifier) then HIGH else LOW)"
      if h: "gpio_initialized c" "output_ok w (output_calls w2)"
            "\<forall>j. j \<noteq> Dehumidifier \<longrightarrow> gpio_pin (actuators c j) \<noteq> gpio_pin (actuators c Dehumidifier)"
    proof -
      from e3 x h have "pins w3 (gpio_pin (actuators c Dehumidifier)) =
                 Some (if active_low (actuators c Dehumidifier) then HIGH else LOW)"
        by (simp add: xd own env)
      moreover from h(3) have "gpio_pin (actuators c Dehumidifier) \<noteq> gpio_pin (actuators c4 Pump)"
        by (auto simp: pin_p)
      ultimately show ?thesis
        using wf_frame by simp
    qed
    from s a pin show ?thesis by (simp add: cf_other)
  qed
  have W: "\<not> lv \<and> state (actuators c Pump) = ON \<and> \<not> exceeded_in_sweep Pump c w \<Longrightarrow>
      actuators cf Pump = (actuators c Pump)
        \<lparr>total_runtime :=
           (case runtime_start (actuators c Pump) of
              Some s \<Rightarrow> if s \<noteq> 0
                        then total_runtime (actuators c Pump) + (clock w (ticks w3) - s)
                        else total_runtime (actuators c Pump)
            | None \<Rightarrow> total_runtime (actuators c Pump)),
         state := (if gpio_initialized c \<and> \<not> output_ok w (output_calls w3) then FAULT else OFF),
         last_state_change :=
           clock w (if truthy (runtime_start (actuators c Pump)) then Suc (ticks w3) else ticks w3),
         runtime_start := None\<rparr> \<and>
      (gpio_initialized c \<and> output_ok w (output_calls w3) \<longrightarrow>
         pins wf (gpio_pin (actuators c Pump)) =
           Some (if active_low (actuators c Pump) then HIGH else LOW))"
  proof -
    assume h: "\<not> lv \<and> state (actuators c Pump) = ON \<and> \<not> exceeded_in_sweep Pump c w"
    with e1 have same: "actuators c4 Pump = actuators c Pump"
      by (simp add: p4 xp)
    with h have f: "forced" by (simp add: forced_def)
    from cmd [OF f] show ?thesis
      unfolding same
      by (cases "runtime_start (actuators c Pump)") (simp_all add: cf_def wf_def f env)
  qed
  have F: "\<not> exceeded_in_sweep k c w \<and>
        \<not> (k = Pump \<and> \<not> lv \<and> state (actuators c Pump) = ON) \<Longrightarrow>
      actuators cf k = actuators c k" for k
  proof (cases k)
    case Pump
    assume h: "\<not> exceeded_in_sweep k c w \<and>
        \<not> (k = Pump \<and> \<not> lv \<and> state (actuators c Pump) = ON)"
    with Pump e1 have same: "actuators c4 Pump = actuators c Pump"
      by (simp add: p4 xp)
    with h Pump have "\<not> forced" by (auto simp: forced_def)
    from cf_pump [OF this] same p4 Pump show ?thesis by simp
  next
    case Chiller
    assume "\<not> exceeded_in_sweep k c w \<and>
        \<not> (k = Pump \<and> \<not> lv \<and> state (actuators c Pump) = ON)"
    with Chiller e2 show ?thesis by (simp add: cf_other xc own)
  next
    case Dehumidifier
    assume "\<not> exceeded_in_sweep k c w \<and>
        \<not> (k = Pump \<and> \<not> lv \<and> state (actuators c Pump) = ON)"
    with Dehumidifier e3 show ?thesis by (simp add: cf_other xd own)
  qed
  have R: "fst (check_safety c w) = ((\<forall>k. \<not> exceeded_in_sweep k c w) \<and> level_ok_in_sweep c w)"
    by (simp add: ret ok3 lvl all_actuator_keys)
  have E: "\<forall>k. exceeded_in_sweep k c w \<longrightarrow>
      (\<exists>s. runtime_start (actuators c k) = Some s \<and>
         actuators (fst (snd (check_safety c w))) k = (actuators c k)
           \<lparr>total_runtime :=
              total_runtime (actuators c k) + (clock w (Suc (ticks (round_world k c w))) - s),
            state := (if gpio_initialized c \<and> \<not> output_ok w (output_calls (round_world k c w))
                      then FAULT else OFF),
            last_state_change := clock w (Suc (Suc (ticks (round_world k c w)))),
            runtime_start := None\<rparr>) \<and>
      (gpio_initialized c \<and> output_ok w (output_calls (round_world k c w)) \<and>
       (\<forall>j. j \<noteq> k \<longrightarrow> gpio_pin (actuators c j) \<noteq> gpio_pin (actuators c k)) \<longrightarrow>
         pins (snd (snd (check_safety c w))) (gpio_pin (actuators c k)) =
           Some (if active_low (actuators c k) then HIGH else LOW))"
    unfolding all_actuator_keys [of "\<lambda>k. exceeded_in_sweep k c w \<longrightarrow> _ k"] fin rw
    using P C D by blast
  have W': "\<not> level_ok_in_sweep c w \<and> state (actuators c Pump) = ON \<and> \<not> exceeded_in_sweep Pump c w \<longrightarrow>
      actuators (fst (snd (check_safety c w))) Pump = (actuators c Pump)
        \<lparr>total_runtime :=
           (case runtime_start (actuators c Pump) of
              Some s \<Rightarrow> if s \<noteq> 0
                        then total_runtime (actuators c Pump) + (clock w (ticks (loop_world c w)) - s)
                        else total_runtime (actuators c Pump)
            | None \<Rightarrow> total_runtime (actuators c Pump)),
         state := (if gpio_initialized c \<and> \<not> output_ok w (output_calls (loop_world c w))
                   then FAULT else OFF),
         last_state_change :=
           clock w (if truthy (runtime_start (actuators c Pump)) then Suc (ticks (loop_world c w))
                    else ticks (loop_world c w)),
         runtime_start := None\<rparr> \<and>
      (gpio_initialized c \<and> output_ok w (output_calls (loop_world c w)) \<longrightarrow>
         pins (snd (snd (check_safety c w))) (gpio_pin (actuators c Pump)) =
           Some (if active_low (actuators c Pump) then HIGH else LOW))"
    unfolding fin rw lvl using W by blast
  have F': "\<forall>k. \<not> exceeded_in_sweep k c w \<and>
        \<not> (k = Pump \<and> \<not> level_ok_in_sweep c w \<and> state (actuators c Pump) = ON) \<longrightarrow>
      actuators (fst (snd (check_safety c w))) k = actuators c k"
    unfolding fin lvl using F by blast
  from R E W' F' show ?thesis by blast
qed

text \<open>The chiller, switched on at time 100 and found at time 2000 to have run for more than
  its 1800 seconds: 1899 seconds are booked, the state changes at 2002, pin 27 goes high
  and the pump is not touched. The pump, switched on at time 100 and found at time 200
  with the reservoir empty: 99 seconds are booked, the state changes at 202 and pin 17
  goes high.\<close>

theorem check_safety_sweep_witness:
  "exceeded_in_sweep Chiller chiller_running late_world \<and>
   fst (check_safety chiller_running late_world) = False \<and>
   actuators (fst (snd (check_safety chiller_running late_world))) Chiller =
     (new_actuator ''Chiller'' 27 10 1800 True)
       \<lparr>state := OFF, last_state_change := 2002, runtime_start := None,
        total_runtime := 1899, cycle_count := 1\<rparr> \<and>
   pins (snd (snd (check_safety chiller_running late_world))) 27 = Some HIGH \<and>
   actuators (fst (snd (check_safety chiller_running late_world))) Pump
     = actuators chiller_running Pump \<and>
   state (actuators pump_running Pump) = ON \<and>
   \<not> level_ok_in_sweep pump_running late_dry_world \<and>
   fst (check_safety pump_running late_dry_world) = False \<and>
   actuators (fst (snd (check_safety pump_running late_dry_world))) Pump =
     (new_actuator ''Water Pump'' 17 10 600 True)
       \<lparr>state := OFF, last_state_change := 202, runtime_start := None,
        total_runtime := 99, cycle_count := 1\<rparr> \<and>
   pins (snd (snd (check_safety pump_running late_dry_world))) 17 = Some HIGH"
proof -
  have out: "\<forall>n. output_ok late_world n" "\<forall>n. output_ok late_dry_world n"
    "clock late_world = (\<lambda>n. 2000 + real n)" "clock late_dry_world = (\<lambda>n. 200 + real n)"
    "ticks late_world = 0" "output_calls late_world = 0"
    by (simp_all add: late_world_def late_dry_world_def world_of_def)
  have pins: "\<forall>j. j \<noteq> Chiller \<longrightarrow>
      gpio_pin (actuators chiller_running j) \<noteq> gpio_pin (actuators chiller_running Chiller)"
    by (simp add: all_actuator_keys chiller_running_actuators pi_controller_actuators
          new_actuator_def)
  from check_safety_sweep [of chiller_running late_world]
       check_safety_sweep [of pump_running late_dry_world]
       chiller_running_sweep pump_running_sweep out pins
  show ?thesis
    by (simp add: all_actuator_keys chiller_running_actuators pump_running_actuators
          pi_controller_actuators new_actuator_def truthy_def)
qed

section \<open>The rate of change\<close>

text \<open>When \<open>vals\<close> has an entry for every reading, the loop never raises, and the
  timestamps it collects are those of the longest run of readings, from the newest
  backwards, that lie within the window.\<close>

lemma recent_readings_loop_times:
  "i + length rs \<le> length vals \<Longrightarrow>
   \<exists>xs. recent_readings_loop now win vals i rs acc = Inr xs \<and>
        map fst xs = map fst acc @ map read_at (takeWhile (\<lambda>r. now - read_at r \<le> win) rs)"
proof (induction rs arbitrary: i acc)
  case Nil
  then show ?case by simp
next
  case (Cons r rs)
  show ?case
  proof (cases "now - read_at r \<le> win")
    case True
    from Cons.prems have i: "i < length vals" and n: "Suc i + length rs \<le> length vals"
      by simp_all
    from Cons.IH [OF n, of "acc @ [(read_at r, vals ! (length vals - Suc i))]"] True i
    show ?thesis by (simp add: Let_def)
  next
    case False
    then show ?thesis by (simp add: Let_def)
  qed
qed

lemma fold_max_in: "fold max xs (x::real) \<in> set (x # xs)"
  by (induction xs arbitrary: x) (auto simp: max_def)

lemma fold_min_in: "fold min xs (x::real) \<in> set (x # xs)"
  by (induction xs arbitrary: x) (auto simp: min_def)

lemma max_list_in: "xs \<noteq> [] \<Longrightarrow> max_list xs \<in> set xs"
  using fold_max_in by (cases xs) auto

lemma min_list_in: "xs \<noteq> [] \<Longrightarrow> min_list xs \<in> set xs"
  using fold_min_in by (cases xs) auto

lemma length_takeWhile_filter: "length (takeWhile P xs) \<le> length (filter P xs)"
  by (induction xs) auto

lemma calculate_rate_of_change_returns:
  assumes "length vals = length (reading_history e)"
  shows "\<exists>r. fst (calculate_rate_of_change e vals win w) = Inr r"
proof -
  have "0 + length (rev (reading_history e)) \<le> length vals"
    using assms by simp
  from recent_readings_loop_times [OF this, of "clock w (ticks w)" win "[]"]
  obtain xs where "recent_readings_loop (clock w (ticks w)) win vals 0 (rev (reading_history e)) [] = Inr xs"
    by blast
  then show ?thesis
    by (simp add: calculate_rate_of_change_def time_time_def Let_def)
qed

text \<open>
  Claim C6. \<open>vals\<close> is one of the engine's series, so it has one entry per stored
  reading. \<^verbatim>\<open>calculate_rate_of_change\<close> returns \<^verbatim>\<open>None\<close> (and so never 0) in each
  of three cases: the series holds fewer than 2 samples; fewer than 2 readings lie
  within \<open>win\<close> seconds of the time at which the function reads the clock; any two
  readings within the window are less than 1 second apart.
\<close>

theorem rate_unknown:
  assumes "length vals = length (reading_history e)"
  shows "(length vals < 2 \<longrightarrow> fst (calculate_rate_of_change e vals win w) = Inr None) \<and>
         (length (filter (\<lambda>r. clock w (ticks w) - read_at r \<le> win) (reading_history e)) < 2 \<longrightarrow>
            fst (calculate_rate_of_change e vals win w) = Inr None) \<and>
         ((\<forall>r \<in> set (filter (\<lambda>r. clock w (ticks w) - read_at r \<le> win) (reading_history e)).
           \<forall>r' \<in> set (filter (\<lambda>r. clock w (ticks w) - read_at r \<le> win) (reading_history e)).
              read_at r - read_at r' < 1) \<longrightarrow>
            fst (calculate_rate_of_change e vals win w) = Inr None)"
proof -
  define now where "now = clock w (ticks w)"
  define P where "P = (\<lambda>r::SensorReading. now - read_at r \<le> win)"
  define tw where "tw = takeWhile P (rev (reading_history e))"
  define inw where "inw = filter P (reading_history e)"
  have "0 + length (rev (reading_history e)) \<le> length vals"
    using assms by simp
  from recent_readings_loop_times [OF this, of now win "[]"]
  obtain xs where xs: "recent_readings_loop now win vals 0 (rev (reading_history e)) [] = Inr xs"
    and times: "map fst xs = map read_at tw"
    unfolding tw_def P_def by auto
  have len: "length xs = length tw"
    using times by (metis length_map)
  have sub: "set tw \<subseteq> set inw"
    unfolding tw_def inw_def by (auto dest: set_takeWhileD)
  have short: "length tw \<le> length inw"
    using length_takeWhile_filter [of P "rev (reading_history e)"]
    unfolding tw_def inw_def by (simp add: rev_filter [symmetric])
  have calc: "fst (calculate_rate_of_change e vals win w) =
      (if length vals < 2 then Inr None
       else if length xs < 2 then Inr None
       else if max_list (map fst xs) - min_list (map fst xs) < 1 then Inr None
       else Inr (Some ((last (map snd xs) - hd (map snd xs)) / (max_list (map fst xs) - min_list (map fst xs)) * 60)))"
    using xs by (simp add: calculate_rate_of_change_def time_time_def Let_def now_def)
  have A: "length vals < 2 \<Longrightarrow> fst (calculate_rate_of_change e vals win w) = Inr None"
    by (simp add: calc)
  have B: "length inw < 2 \<Longrightarrow> fst (calculate_rate_of_change e vals win w) = Inr None"
    using short len by (simp add: calc)
  have C: "fst (calculate_rate_of_change e vals win w) = Inr None"
    if span: "\<forall>r \<in> set inw. \<forall>r' \<in> set inw. read_at r - read_at r' < 1"
  proof (cases "length vals < 2 \<or> length xs < 2")
    case True
    then show ?thesis by (auto simp: calc)
  next
    case False
    then have ne: "map fst xs \<noteq> []" by auto
    have "max_list (map fst xs) \<in> read_at ` set tw"
      using max_list_in [OF ne] times by simp
    then obtain r where r: "r \<in> set tw" "max_list (map fst xs) = read_at r"
      by blast
    have "min_list (map fst xs) \<in> read_at ` set tw"
      using min_list_in [OF ne] times by simp
    then obtain r' where r': "r' \<in> set tw" "min_list (map fst xs) = read_at r'"
      by blast
    from r(1) r'(1) sub have "r \<in> set inw" "r' \<in> set inw" by blast+
    with span have "read_at r - read_at r' < 1" by blast
    then show ?thesis by (simp add: calc r r')
  qed
  from A B C show ?thesis
    unfolding inw_def P_def now_def by blast
qed

text \<open>An empty history; two readings of which one is 100 seconds old, with a window of
  60 seconds; two readings half a second apart.\<close>

theorem rate_unknown_witness:
  "fst (calculate_rate_of_change (engine_with []) [] 60 steady_world) = Inr None \<and>
   fst (calculate_rate_of_change (engine_with [sample 0 10, sample 100 11]) [10, 11] 60 steady_world)
     = Inr None \<and>
   fst (calculate_rate_of_change (engine_with [sample 99.5 10, sample 100 11]) [10, 11] 60 steady_world)
     = Inr None"
  using rate_unknown [of "[]" "engine_with []" 60 steady_world]
        rate_unknown [of "[10, 11]" "engine_with [sample 0 10, sample 100 11]" 60 steady_world]
        rate_unknown [of "[10, 11]" "engine_with [sample 99.5 10, sample 100 11]" 60 steady_world]
  by (simp add: engine_with_def sample_def steady_world_def world_of_def)

text \<open>
  Claim C7 says that the rate is the most recent value within the window minus the
  oldest one, per minute, hence positive for a rising series. The list
  \<^verbatim>\<open>recent_readings\<close> is built from the newest reading backwards, so
  \<^verbatim>\<open>vals[-1] - vals[0]\<close> is the oldest value minus the newest. With 10 degrees read
  at time 70 and 11 degrees at time 100, a rise of 2 degrees per minute, the function
  returns \<open>-2\<close>.
\<close>

theorem rate_sign_inverted:
  "fst (calculate_rate_of_change (engine_with [sample 70 10, sample 100 11]) [10, 11] 60 steady_world)
     = Inr (Some (- 2))"
  by (simp add: mango_engine_def engine_with_def sample_def new_engine_def
        get_config_dict_def dict_get_def steady_world_def world_of_def time_time_def
        calculate_rate_of_change_def Let_def)

section \<open>The decision rules\<close>

text \<open>The constructor aligns the series with the readings, and \<^verbatim>\<open>make_decision\<close>
  and \<^verbatim>\<open>execute_decision\<close> keep them aligned; with aligned series
  \<^verbatim>\<open>make_decision\<close> raises nothing and returns what the rule cascade decides, on the
  engine's unchanged settings.\<close>

lemma length_deque_append: "length (deque_append n xs x) = min n (Suc (length xs))"
  by (simp add: deque_append_def Let_def)

lemma add_reading_aligned:
  assumes "histories_aligned e" "add_reading e t h w = (e1, w1)"
  shows "histories_aligned e1"
  using assms
  by (auto simp: histories_aligned_def add_reading_def new_reading_def time_time_def Let_def
        length_deque_append)

lemma add_reading_settings:
  assumes "add_reading e t h w = (e1, w1)"
  shows "safety_params e1 = safety_params e \<and> temp_min e1 = temp_min e \<and>
         temp_target e1 = temp_target e \<and> temp_max e1 = temp_max e \<and>
         humidity_min e1 = humidity_min e \<and> humidity_target e1 = humidity_target e \<and>
         humidity_max e1 = humidity_max e \<and> temp_hysteresis e1 = temp_hysteresis e \<and>
         humidity_hysteresis e1 = humidity_hysteresis e"
  using assms
  by (auto simp: add_reading_def new_reading_def time_time_def Let_def)

lemma make_decision_decides:
  assumes "histories_aligned e"
  shows "\<exists>e1 tr hr w3. fst (make_decision e t h w) = Inr (fst (decide e1 t h tr hr w3)) \<and>
           safety_params e1 = safety_params e \<and> temp_min e1 = temp_min e \<and>
           temp_target e1 = temp_target e \<and> temp_max e1 = temp_max e \<and>
           humidity_min e1 = humidity_min e \<and> humidity_target e1 = humidity_target e \<and>
           humidity_max e1 = humidity_max e \<and> temp_hysteresis e1 = temp_hysteresis e \<and>
           humidity_hysteresis e1 = humidity_hysteresis e"
proof -
  obtain e1 w1 where a: "add_reading e t h w = (e1, w1)"
    by (cases "add_reading e t h w") auto
  from add_reading_aligned [OF assms a] have al: "histories_aligned e1" .
  obtain r1 w2 where c1: "calculate_rate_of_change e1 (temp_history e1) 60 w1 = (r1, w2)"
    by (cases "calculate_rate_of_change e1 (temp_history e1) 60 w1") auto
  obtain tr where tr: "r1 = Inr tr"
    using calculate_rate_of_change_returns [of "temp_history e1" e1 60 w1] al c1
    by (auto simp: histories_aligned_def)
  obtain r2 w3 where c2: "calculate_rate_of_change e1 (humidity_history e1) 60 w2 = (r2, w3)"
    by (cases "calculate_rate_of_change e1 (humidity_history e1) 60 w2") auto
  obtain hr where hr: "r2 = Inr hr"
    using calculate_rate_of_change_returns [of "humidity_history e1" e1 60 w2] al c2
    by (auto simp: histories_aligned_def)
  have "fst (make_decision e t h w) = Inr (fst (decide e1 t h tr hr w3))"
    by (simp add: make_decision_def a c1 c2 tr hr Let_def split: prod.splits)
  with add_reading_settings [OF a] show ?thesis by blast
qed

lemma new_decision_fields:
  "fst (new_decision m p c d r pr w) =
     \<lparr> mode = m, pump = p, chiller = c, dehumidifier = d, reason = r, priority = pr,
       timestamp = clock w (ticks w) \<rparr>"
  by (simp add: new_decision_def time_time_def)

lemma new_engine_aligned: "histories_aligned (fst (new_engine cfg w))"
  by (simp add: histories_aligned_def new_engine_def time_time_def Let_def)

lemma make_decision_aligned:
  "histories_aligned e \<Longrightarrow> histories_aligned (fst (snd (make_decision e t h w)))"
proof -
  assume a: "histories_aligned e"
  obtain e1 w1 where r: "add_reading e t h w = (e1, w1)"
    by (cases "add_reading e t h w") auto
  have "fst (snd (make_decision e t h w)) = e1"
    by (simp add: make_decision_def r Let_def split: prod.splits sum.splits)
  with add_reading_aligned [OF a r] show ?thesis by simp
qed

lemma execute_decision_aligned:
  "histories_aligned e \<Longrightarrow> histories_aligned (fst (execute_decision e d w))"
  by (simp add: histories_aligned_def execute_decision_def time_time_def Let_def
        split: prod.splits)

text \<open>
  Claim C1. For every engine state the program can reach, every humidity and every
  clock: a temperature strictly above the configured emergency shutdown temperature
  (15.0 when the key is absent) makes \<^verbatim>\<open>make_decision\<close> return a decision with mode
  \<open>EMERGENCY\<close>, pump and chiller on, dehumidifier off and priority 10. Its reason is
  the one of the emergency rule, so no later rule produced it.
\<close>

theorem emergency_rule:
  assumes "histories_aligned e"
      and "t > dict_get (cfg_emergency_shutdown_temp (safety_params e)) 15.0"
  shows "\<exists>d. fst (make_decision e t h w) = Inr d \<and>
             mode d = EMERGENCY \<and> pump d \<and> chiller d \<and> \<not> dehumidifier d \<and> priority d = 10 \<and>
             reason d = Emergency_exceeds t (dict_get (cfg_emergency_shutdown_temp (safety_params e)) 15.0)"
proof -
  from make_decision_decides [OF assms(1), of t h w]
  obtain e1 tr hr w3 where d: "fst (make_decision e t h w) = Inr (fst (decide e1 t h tr hr w3))"
    and s: "safety_params e1 = safety_params e"
    by blast
  have "fst (decide e1 t h tr hr w3) =
      fst (new_decision EMERGENCY True True False
            (Emergency_exceeds t (dict_get (cfg_emergency_shutdown_temp (safety_params e)) 15.0)) 10 w3)"
    using assms(2) by (simp add: decide_def s Let_def split: prod.splits)
  with d show ?thesis by (simp add: new_decision_fields)
qed

text \<open>16 degrees against the configured 15, on the engine as constructed.\<close>

theorem emergency_rule_witness:
  "histories_aligned mango_engine \<and>
   (16::real) > dict_get (cfg_emergency_shutdown_temp (safety_params mango_engine)) 15.0 \<and>
   (\<exists>d. fst (make_decision mango_engine 16 50 started_world) = Inr d \<and>
        mode d = EMERGENCY \<and> pump d \<and> chiller d \<and> \<not> dehumidifier d \<and> priority d = 10)"
proof -
  have a: "histories_aligned mango_engine"
    by (simp add: mango_engine_def new_engine_aligned)
  have b: "(16::real) > dict_get (cfg_emergency_shutdown_temp (safety_params mango_engine)) 15.0"
    by (simp add: mango_engine_def new_engine_def get_config_dict_def dict_get_def
          steady_world_def world_of_def time_time_def Let_def)
  from emergency_rule [OF a b, of 50 started_world] a b show ?thesis by blast
qed

text \<open>
  Claim C8 says that with the mango targets \<^verbatim>\<open>make_decision(9.5, 88)\<close> returns
  \<open>EVAPORATIVE\<close>. 9.5 degrees is below \<^verbatim>\<open>temp_min = 10.0\<close>, which
  \<^verbatim>\<open>assess_temperature\<close> rates "critically low" with urgency 9, and an urgency of 8
  or more takes the first rule after the emergency check: on the engine as constructed
  from \<^verbatim>\<open>settings.py\<close>, with the spray cooldown long elapsed, the decision is
  \<open>CHILLER\<close>.
\<close>

theorem mango_cold_counterexample:
  "fst (make_decision mango_engine 9.5 88 started_world) =
     Inr \<lparr> mode = CHILLER, pump = True, chiller = True, dehumidifier = False,
           reason = Aggressive_cooling Critically_low, priority = 9, timestamp = 102 \<rparr>"
  by (simp add: mango_engine_def started_world_def new_engine_def get_config_dict_def
        dict_get_def steady_world_def world_of_def time_time_def make_decision_def
        add_reading_def new_reading_def deque_append_def calculate_rate_of_change_def
        decide_def assess_temperature_def assess_humidity_def new_decision_def Let_def)

text \<open>Storing the reading and computing the rates only moves the clock on and leaves the
  settings alone; and the cascade, once the emergency rule and the two critical rules
  are out of the way, takes the moderate-heat rule when the cooldown has elapsed.\<close>

lemma calculate_rate_of_change_world:
  "ticks w \<le> ticks (snd (calculate_rate_of_change e vals win w)) \<and>
   clock (snd (calculate_rate_of_change e vals win w)) = clock w"
  by (simp add: calculate_rate_of_change_def time_time_def Let_def split: sum.splits)

lemma add_reading_world:
  "ticks w \<le> ticks (snd (add_reading e t h w)) \<and> clock (snd (add_reading e t h w)) = clock w"
  by (simp add: add_reading_def new_reading_def time_time_def Let_def)

lemma add_reading_assess:
  "assess_temperature (fst (add_reading e t h w)) = assess_temperature e"
  "assess_humidity (fst (add_reading e t h w)) = assess_humidity e"
  "safety_params (fst (add_reading e t h w)) = safety_params e"
  "actuator_params (fst (add_reading e t h w)) = actuator_params e"
  "humidity_max (fst (add_reading e t h w)) = humidity_max e"
  "spray_last_activated (fst (add_reading e t h w)) = spray_last_activated e"
  by (auto simp: add_reading_def new_reading_def time_time_def Let_def fun_eq_iff
        assess_temperature_def assess_humidity_def split: option.splits)

lemma decide_moderate_heat:
  assumes "t \<le> dict_get (cfg_emergency_shutdown_temp (safety_params e)) 15.0"
      and "assess_temperature e t tr = (ta, tu)" "4 \<le> tu" "tu < 8"
      and "assess_humidity e h hr = (ha, hu)" "hu < 7"
      and "h < humidity_max e - 5"
      and "dict_get (cfg_spray_cooldown (actuator_params e)) 30 \<le> clock w (ticks w) - spray_last_activated e"
  shows "fst (decide e t h tr hr w) =
           \<lparr> mode = EVAPORATIVE, pump = True, chiller = False, dehumidifier = False,
             reason = Evaporative_cooling ta, priority = tu, timestamp = clock w (Suc (ticks w)) \<rparr>"
  using assms
  by (simp add: decide_def can_spray_now_def new_decision_def time_time_def Let_def)

text \<open>
  Claim C8, amended. The moderate-heat rule in general: whenever the temperature is not
  above the emergency shutdown temperature, the temperature urgency is at least 4 and
  below 8, the humidity urgency is below 7, the humidity is more than 5 points below
  \<open>humidity_max\<close>, and the spray cooldown has elapsed at every clock read from now on,
  \<^verbatim>\<open>make_decision\<close> returns a decision with mode \<open>EVAPORATIVE\<close>: pump on, chiller
  off, dehumidifier off, with the temperature urgency as priority. The urgencies are
  those that \<^verbatim>\<open>assess_temperature\<close> and \<^verbatim>\<open>assess_humidity\<close> give on the rates
  computed from the history. Nothing is said about inputs outside the rule, such as
  9.5 degrees under the mango targets.
\<close>

theorem moderate_heat_rule:
  assumes "rates_seen e t h w = (Inr tr, Inr hr)"
      and "t \<le> dict_get (cfg_emergency_shutdown_temp (safety_params e)) 15.0"
      and "4 \<le> snd (assess_temperature e t tr)"
      and "snd (assess_temperature e t tr) < 8"
      and "snd (assess_humidity e h hr) < 7"
      and "h < humidity_max e - 5"
      and "\<forall>n\<ge>ticks w. dict_get (cfg_spray_cooldown (actuator_params e)) 30
                           \<le> clock w n - spray_last_activated e"
  shows "\<exists>d. fst (make_decision e t h w) = Inr d \<and>
             mode d = EVAPORATIVE \<and> pump d \<and> \<not> chiller d \<and> \<not> dehumidifier d \<and>
             priority d = snd (assess_temperature e t tr) \<and>
             reason d = Evaporative_cooling (fst (assess_temperature e t tr))"
proof -
  obtain e1 w1 where a: "add_reading e t h w = (e1, w1)"
    by (cases "add_reading e t h w") auto
  obtain r1 w2 where c1: "calculate_rate_of_change e1 (temp_history e1) 60 w1 = (r1, w2)"
    by (cases "calculate_rate_of_change e1 (temp_history e1) 60 w1") auto
  obtain r2 w3 where c2: "calculate_rate_of_change e1 (humidity_history e1) 60 w2 = (r2, w3)"
    by (cases "calculate_rate_of_change e1 (humidity_history e1) 60 w2") auto
  from assms(1) have r: "r1 = Inr tr" "r2 = Inr hr"
    by (simp_all add: rates_seen_def a c1 c2)
  have e1: "assess_temperature e1 = assess_temperature e" "assess_humidity e1 = assess_humidity e"
      "safety_params e1 = safety_params e" "actuator_params e1 = actuator_params e"
      "humidity_max e1 = humidity_max e" "spray_last_activated e1 = spray_last_activated e"
    using add_reading_assess [of e t h w] by (simp_all add: a)
  have "ticks w \<le> ticks w1" "clock w1 = clock w"
    using add_reading_world [of w e t h] by (simp_all add: a)
  moreover have "ticks w1 \<le> ticks w2" "clock w2 = clock w1"
    using calculate_rate_of_change_world [of w1 e1 "temp_history e1" 60] by (simp_all add: c1)
  moreover have "ticks w2 \<le> ticks w3" "clock w3 = clock w2"
    using calculate_rate_of_change_world [of w2 e1 "humidity_history e1" 60] by (simp_all add: c2)
  ultimately have w3: "ticks w \<le> ticks w3" "clock w3 = clock w"
    by simp_all
  have md: "fst (make_decision e t h w) = Inr (fst (decide e1 t h tr hr w3))"
    by (simp add: make_decision_def a c1 c2 r Let_def split: prod.splits)
  obtain ta tu where ta: "assess_temperature e t tr = (ta, tu)"
    by (cases "assess_temperature e t tr") auto
  obtain ha hu where ha: "assess_humidity e h hr = (ha, hu)"
    by (cases "assess_humidity e h hr") auto
  have cool: "dict_get (cfg_spray_cooldown (actuator_params e1)) 30
                \<le> clock w3 (ticks w3) - spray_last_activated e1"
    using assms(7) w3 by (simp add: e1)
  have "fst (decide e1 t h tr hr w3) =
           \<lparr> mode = EVAPORATIVE, pump = True, chiller = False, dehumidifier = False,
             reason = Evaporative_cooling ta, priority = tu, timestamp = clock w3 (Suc (ticks w3)) \<rparr>"
    using assms(2-6) ta ha cool
    by (intro decide_moderate_heat) (simp_all add: e1)
  with md ta show ?thesis by simp
qed

text \<open>With the default targets of the constructor (target 5.0, maximum 8.0 degrees;
  humidity target 90, maximum 95), 7 degrees at 88 percent is above target with urgency
  6, the humidity is optimal, and the decision is \<open>EVAPORATIVE\<close>.\<close>

theorem moderate_heat_rule_witness:
  "rates_seen default_engine 7 88 started_world = (Inr None, Inr None) \<and>
   assess_temperature default_engine 7 None = (Above_target, 6) \<and>
   assess_humidity default_engine 88 None = (Optimal, 0) \<and>
   (\<exists>d. fst (make_decision default_engine 7 88 started_world) = Inr d \<and>
        mode d = EVAPORATIVE \<and> pump d \<and> \<not> chiller d \<and> \<not> dehumidifier d \<and>
        priority d = 6 \<and> reason d = Evaporative_cooling Above_target)"
proof -
  have r: "rates_seen default_engine 7 88 started_world = (Inr None, Inr None)"
    by (simp add: rates_seen_def default_engine_def started_world_def new_engine_def
          empty_config_def dict_get_def steady_world_def world_of_def time_time_def
          add_reading_def new_reading_def deque_append_def calculate_rate_of_change_def Let_def)
  have t: "assess_temperature default_engine 7 None = (Above_target, 6)"
    by (simp add: assess_temperature_def default_engine_def new_engine_def empty_config_def
          dict_get_def time_time_def Let_def)
  have h: "assess_humidity default_engine 88 None = (Optimal, 0)"
    by (simp add: assess_humidity_def default_engine_def new_engine_def empty_config_def
          dict_get_def time_time_def Let_def)
  have s: "(7::real) \<le> dict_get (cfg_emergency_shutdown_temp (safety_params default_engine)) 15.0"
       "(88::real) < humidity_max default_engine - 5"
       "\<forall>n\<ge>ticks started_world.
          dict_get (cfg_spray_cooldown (actuator_params default_engine)) 30
            \<le> clock started_world n - spray_last_activated default_engine"
    by (simp_all add: default_engine_def started_world_def new_engine_def empty_config_def
          dict_get_def steady_world_def world_of_def time_time_def Let_def)
  from moderate_heat_rule [OF r s(1) _ _ _ s(2) s(3)] t h r show ?thesis
    by simp
qed

text \<open>Under the mango targets of \<^verbatim>\<open>settings.py\<close> the rule cannot fire at all: a
  humidity more than 5 points below \<^verbatim>\<open>humidity_max = 90.0\<close> is below
  \<^verbatim>\<open>humidity_min = 85.0\<close>, which is rated critically low with urgency 8.\<close>

lemma mango_moderate_heat_dead:
  assumes "mango_targets e"
  shows "\<not> (h < humidity_max e - 5 \<and> snd (assess_humidity e h hr) < 7)"
  using assms by (auto simp: mango_targets_def assess_humidity_def)

section \<open>The accounting of mode durations\<close>

text \<open>What \<^verbatim>\<open>execute_decision\<close> does to the sum that \<^verbatim>\<open>get_statistics\<close> takes for
  the total time: a mode change reads the clock twice, books the time up to the first
  read on the outgoing mode and opens the new interval at the second read, so the time
  between the two reads is booked nowhere. Without a mode change, or when the two reads
  return the same instant, the sum is unchanged.\<close>

lemma total_time_execute_decision:
  "total_time (fst (execute_decision e d w)) now =
     total_time e now -
       (if current_mode e \<noteq> mode d then clock w (Suc (ticks w)) - clock w (ticks w) else 0)"
  by (cases "current_mode e")
     (simp_all add: total_time_def cooling_modes_def execute_decision_def time_time_def Let_def
        split: prod.splits)

text \<open>
  Claim C10 says that the per-mode counters plus the open interval of the current mode
  always add up to the time elapsed since the engine was constructed. The engine is
  constructed at time 100, where the sum is 0 as it should be. A minute later a decision
  changes the mode, the clock reading 160 and then 160.5 inside
  \<^verbatim>\<open>execute_decision\<close>. At time 220 the sum is 119.5, while 120 seconds have elapsed.
\<close>

theorem accounting_drifts:
  "last_mode_change (fst (new_engine get_config_dict accounting_world)) = 100 \<and>
   total_time (fst (new_engine get_config_dict accounting_world)) 100 = 0 \<and>
   total_time (fst (execute_decision (fst (new_engine get_config_dict accounting_world))
                      spray_decision (snd (new_engine get_config_dict accounting_world)))) 220
     = 119.5"
  by (simp add: new_engine_def get_config_dict_def dict_get_def accounting_world_def world_of_def
        clock_of_def spray_decision_def total_time_def cooling_modes_def execute_decision_def
        time_time_def Let_def)

end
